theory Spec2Isabelle
  imports Complex_Main
begin

section \<open>JavaScript values and built-ins\<close>

text \<open>
  Request bodies, upstream bodies and stored recommendations are unvalidated JSON: the
  interfaces of the source are erased at run time. A JSON value is modelled as it is after
  \<^verbatim>\<open>JSON.parse\<close>. A number is carried as the decimal text the runtime prints for it
  (\<^verbatim>\<open>4.5\<close>, \<^verbatim>\<open>12\<close>, \<^verbatim>\<open>0\<close>), an object as the list of its keys and values, each key
  once. The value \<^verbatim>\<open>undefined\<close> is not JSON: a place that may hold it has type
  \<open>jsonv option\<close>, with \<open>None\<close> for \<^verbatim>\<open>undefined\<close>.
\<close>

datatype jsonv =
    JNull
  | JBool bool
  | JNumber string
  | JString string
  | JArray "jsonv list"
  | JObject "(string \<times> jsonv) list"

text \<open>
  An operation of the engine either throws a \<^verbatim>\<open>TypeError\<close> or completes with a value.
\<close>

datatype 'a completion =
    TypeErrorThrown
  | Normal 'a

text \<open>
  A numeral denotes zero when no digit of its mantissa (the part before an exponent) is other
  than \<^verbatim>\<open>0\<close>.
\<close>

definition zero_numeral :: "string \<Rightarrow> bool" where
  "zero_numeral t =
     list_all (\<lambda>c. c \<notin> set ''123456789'')
       (takeWhile (\<lambda>c. c \<noteq> CHR ''e'' \<and> c \<noteq> CHR ''E'') t)"

text \<open>\<^verbatim>\<open>ToBoolean\<close>, the test of \<^verbatim>\<open>if (v)\<close>, \<^verbatim>\<open>!v\<close> and \<^verbatim>\<open>v || w\<close>.\<close>

fun truthy :: "jsonv \<Rightarrow> bool" where
  "truthy JNull = False"
| "truthy (JBool b) = b"
| "truthy (JNumber t) = (\<not> zero_numeral t)"
| "truthy (JString s) = (s \<noteq> [])"
| "truthy (JArray xs) = True"
| "truthy (JObject kvs) = True"

definition truthy_opt :: "jsonv option \<Rightarrow> bool" where
  "truthy_opt v = (case v of None \<Rightarrow> False | Some x \<Rightarrow> truthy x)"

text \<open>
  \<^verbatim>\<open>ToString\<close>, which a template literal applies to each interpolated value. An array
  joins the strings of its elements with commas, \<^verbatim>\<open>null\<close> elements giving the empty
  string. An object is asked for its \<^verbatim>\<open>toString\<close>: with no key of that name it inherits
  the method that answers \<^verbatim>\<open>[object Object]\<close>; a key of that name holds a JSON value,
  which is not callable, and the inherited \<^verbatim>\<open>valueOf\<close> (or a key of that name) gives no
  primitive, so the conversion throws.
\<close>

fun ToString :: "jsonv \<Rightarrow> string completion"
  and join :: "jsonv list \<Rightarrow> string completion"
where
  "ToString JNull = Normal ''null''"
| "ToString (JBool b) = Normal (if b then ''true'' else ''false'')"
| "ToString (JNumber t) = Normal t"
| "ToString (JString s) = Normal s"
| "ToString (JArray xs) = join xs"
| "ToString (JObject kvs) =
     (if ''toString'' \<in> set (map fst kvs) then TypeErrorThrown
      else Normal ''[object Object]'')"
| "join [] = Normal []"
| "join (x # xs) =
     (case (if x = JNull then Normal [] else ToString x) of
        TypeErrorThrown \<Rightarrow> TypeErrorThrown
      | Normal s \<Rightarrow>
          if xs = [] then Normal s
          else (case join xs of
                  TypeErrorThrown \<Rightarrow> TypeErrorThrown
                | Normal t \<Rightarrow> Normal (s @ '','' @ t)))"

text \<open>An interpolation \<^verbatim>\<open>${v}\<close>, where \<open>v\<close> may be \<^verbatim>\<open>undefined\<close>.\<close>

definition interpolation :: "jsonv option \<Rightarrow> string completion" where
  "interpolation v = (case v of None \<Rightarrow> Normal ''undefined'' | Some x \<Rightarrow> ToString x)"

text \<open>
  Reading a property \<^verbatim>\<open>v.k\<close>, for the keys the source reads (none of them is
  \<^verbatim>\<open>length\<close>, an index or a method of a prototype): it throws on \<^verbatim>\<open>null\<close>, an object
  gives the value under the key, every other value gives \<^verbatim>\<open>undefined\<close>.
\<close>

definition get_prop :: "jsonv \<Rightarrow> string \<Rightarrow> jsonv option completion" where
  "get_prop v k =
     (case v of
        JNull \<Rightarrow> TypeErrorThrown
      | JObject kvs \<Rightarrow> Normal (map_of kvs k)
      | _ \<Rightarrow> Normal None)"

text \<open>
  What \<^verbatim>\<open>v.length\<close> is when it is not a number: arrays and strings have a numeric
  length, an object has the value under the key \<^verbatim>\<open>length\<close>, the other values have none.
  Only an object's can fail to print.
\<close>

definition odd_length :: "jsonv \<Rightarrow> jsonv option" where
  "odd_length v = (case v of JObject kvs \<Rightarrow> map_of kvs ''length'' | _ \<Rightarrow> None)"

text \<open>
  \<^verbatim>\<open>Array.prototype.slice(start, end)\<close> on integer arguments: a negative
  argument counts from the end, both are clamped to the length, and an empty window gives the
  empty array. It never throws.
\<close>

definition slice :: "'a list \<Rightarrow> int \<Rightarrow> int \<Rightarrow> 'a list" where
  "slice xs start fin =
     (let len = int (length xs);
          k = (if start < 0 then max (len + start) 0 else min start len);
          final = (if fin < 0 then max (len + fin) 0 else min fin len)
      in take (nat (max (final - k) 0)) (drop (nat k) xs))"

text \<open>
  The call \<^verbatim>\<open>v.slice(start, end)\<close> on a value that is not \<^verbatim>\<open>null\<close>: an array and a
  string have the method (\<^verbatim>\<open>String.prototype.slice\<close> follows the same index rules), any
  other value has none and the call throws.
\<close>

definition call_slice :: "jsonv \<Rightarrow> int \<Rightarrow> int \<Rightarrow> jsonv completion" where
  "call_slice v start fin =
     (case v of
        JArray xs \<Rightarrow> Normal (JArray (slice xs start fin))
      | JString s \<Rightarrow> Normal (JString (slice s start fin))
      | _ \<Rightarrow> TypeErrorThrown)"

text \<open>
  A value read from \<^verbatim>\<open>process.env\<close>: \<open>None\<close> is \<^verbatim>\<open>undefined\<close>. The test
  \<^verbatim>\<open>!value\<close> holds for \<^verbatim>\<open>undefined\<close> and for the empty string.
\<close>

definition falsy :: "string option \<Rightarrow> bool" where
  "falsy v = (case v of None \<Rightarrow> True | Some s \<Rightarrow> s = [])"

section \<open>Backend: the places gateway and the itinerary assembler\<close>

text \<open>
  Embedding of \<^verbatim>\<open>backend/src/index.ts\<close>. The payload of an upstream error response is a
  type parameter \<open>'d\<close>.
\<close>

subsection \<open>Data\<close>

text \<open>
  The fields the handlers take from \<^verbatim>\<open>req.body\<close>, the object \<^verbatim>\<open>express.json()\<close>
  leaves there: each is whatever JSON the client sent under that key, or \<^verbatim>\<open>undefined\<close>.
\<close>

record city_search_request =
  cityName :: "jsonv option"

record trip_recommend_request = city_search_request +
  budget :: "jsonv option"
  tripType :: "jsonv option"

text \<open>
  What a handler's \<^verbatim>\<open>try\<close> block can throw: the \<^verbatim>\<open>Error\<close> raised for a missing
  credential, a \<^verbatim>\<open>TypeError\<close> of the engine, or the rejection of \<^verbatim>\<open>axios.post\<close>
  with its message. An axios error may or may not have a \<^verbatim>\<open>response\<close> property; when
  it has one, \<^verbatim>\<open>error.response?.data\<close> is the upstream body or \<^verbatim>\<open>undefined\<close>
  (\<open>None\<close>).
\<close>

datatype 'd response_property =
    Absent
  | Present "'d option"

datatype 'd thrown =
    Error string
  | TypeError
  | AxiosError string "'d response_property"

text \<open>
  The \<^verbatim>\<open>details\<close> field of the error envelope:
  \<^verbatim>\<open>'response' in error ? error.response?.data : error\<close>.
\<close>

datatype 'd details =
    ResponseData "'d option"
  | Thrown "'d thrown"

definition details_of :: "'d thrown \<Rightarrow> 'd details" where
  "details_of e =
     (case e of
        AxiosError msg (Present d) \<Rightarrow> ResponseData d
      | _ \<Rightarrow> Thrown e)"

text \<open>
  A slot's \<^verbatim>\<open>places\<close> is the result of a \<^verbatim>\<open>slice\<close> call, the recommendation's
  \<^verbatim>\<open>city\<close> is the request's \<^verbatim>\<open>cityName\<close> as it came.
\<close>

record time_slot =
  title :: string
  description :: string
  places :: jsonv

record day_plan =
  morning :: time_slot
  afternoon :: time_slot
  evening :: time_slot

record trip_recommendation =
  city :: "jsonv option"
  day1 :: day_plan
  day2 :: day_plan

text \<open>The objects the two modelled endpoints hand to \<^verbatim>\<open>res.json\<close>.\<close>

datatype 'd body =
    PlacesBody jsonv
  | RecommendationBody trip_recommendation
  | ErrorBody string "'d details"

record 'd http_response =
  status :: nat
  body :: "'d body"

text \<open>\<^verbatim>\<open>res.json(b)\<close> answers with status 200; \<^verbatim>\<open>res.status(500).json(b)\<close> with 500.\<close>

definition res_json :: "'d body \<Rightarrow> 'd http_response" where
  "res_json b = \<lparr>status = 200, body = b\<rparr>"

definition res_status_json :: "nat \<Rightarrow> 'd body \<Rightarrow> 'd http_response" where
  "res_status_json s b = \<lparr>status = s, body = b\<rparr>"

text \<open>
  The upstream places directory, as the handlers see it through \<^verbatim>\<open>axios.post\<close>: given
  the credential header and the \<^verbatim>\<open>textQuery\<close>, it either rejects (\<open>Inl\<close>) or resolves,
  and \<^verbatim>\<open>response.data\<close> is then the JSON of the reply (\<open>Inr\<close>).
\<close>

type_synonym 'd upstream = "string option \<Rightarrow> string \<Rightarrow> 'd thrown + jsonv"

subsection \<open>City search: \<^verbatim>\<open>POST /api/cities/search\<close>\<close>



subsection \<open>Trip recommendation: \<^verbatim>\<open>POST /api/trips/recommend\<close>\<close>

text \<open>
  \<^verbatim>\<open>response.data.places || []\<close>: reading the field throws on a \<^verbatim>\<open>null\<close> body; an
  absent or falsy field becomes the empty array.
\<close>

definition places_or_empty :: "jsonv \<Rightarrow> jsonv completion" where
  "places_or_empty response_data =
     (case get_prop response_data ''places'' of
        TypeErrorThrown \<Rightarrow> TypeErrorThrown
      | Normal found \<Rightarrow>
          Normal (case (if truthy_opt found then found else None) of
                    None \<Rightarrow> JArray []
                  | Some ps \<Rightarrow> ps))"

text \<open>
  The object literal \<^verbatim>\<open>recommendation\<close> of the handler: its six \<^verbatim>\<open>slice\<close> calls in
  the order of the source, the first that throws ending the evaluation.
\<close>

definition recommendation ::
  "jsonv option \<Rightarrow> jsonv \<Rightarrow> jsonv \<Rightarrow> trip_recommendation completion" where
  "recommendation name attractions restaurants =
     (case call_slice attractions 0 2 of TypeErrorThrown \<Rightarrow> TypeErrorThrown | Normal m1 \<Rightarrow>
      case call_slice attractions 2 4 of TypeErrorThrown \<Rightarrow> TypeErrorThrown | Normal a1 \<Rightarrow>
      case call_slice restaurants 0 2 of TypeErrorThrown \<Rightarrow> TypeErrorThrown | Normal e1 \<Rightarrow>
      case call_slice attractions 4 6 of TypeErrorThrown \<Rightarrow> TypeErrorThrown | Normal m2 \<Rightarrow>
      case call_slice attractions 6 8 of TypeErrorThrown \<Rightarrow> TypeErrorThrown | Normal a2 \<Rightarrow>
      case call_slice restaurants 2 4 of TypeErrorThrown \<Rightarrow> TypeErrorThrown | Normal e2 \<Rightarrow>
      Normal
        \<lparr>city = name,
         day1 =
           \<lparr>morning =
              \<lparr>title = ''Morning Exploration'',
               description = ''Start your day exploring the city's main attractions'',
               places = m1\<rparr>,
            afternoon =
              \<lparr>title = ''Afternoon Activities'',
               description = ''Continue discovering the city's highlights'',
               places = a1\<rparr>,
            evening =
              \<lparr>title = ''Evening Entertainment'',
               description = ''Enjoy dinner and evening activities'',
               places = e1\<rparr>\<rparr>,
         day2 =
           \<lparr>morning =
              \<lparr>title = ''Morning Activities'',
               description = ''Start your second day with local experiences'',
               places = m2\<rparr>,
            afternoon =
              \<lparr>title = ''Afternoon Exploration'',
               description = ''More city highlights and activities'',
               places = a2\<rparr>,
            evening =
              \<lparr>title = ''Farewell Evening'',
               description = ''End your trip with memorable experiences'',
               places = e2\<rparr>\<rparr>\<rparr>)"

text \<open>
  The log of line 176 interpolates \<^verbatim>\<open>cityName\<close>, \<^verbatim>\<open>budget\<close> and
  \<^verbatim>\<open>tripType\<close>, in this order.
\<close>

definition log_request :: "trip_recommend_request \<Rightarrow> string completion" where
  "log_request req =
     (case interpolation (cityName req) of TypeErrorThrown \<Rightarrow> TypeErrorThrown | Normal c \<Rightarrow>
      case interpolation (budget req) of TypeErrorThrown \<Rightarrow> TypeErrorThrown | Normal b \<Rightarrow>
      case interpolation (tripType req) of TypeErrorThrown \<Rightarrow> TypeErrorThrown | Normal t \<Rightarrow>
      Normal (''[Recommendations] Generating trip for '' @ c @ '' ('' @ b @ '', '' @ t @ '')''))"

text \<open>
  The log of line 213 interpolates the two lengths; only a length that is not a number can
  fail to print.
\<close>

definition log_lengths :: "jsonv \<Rightarrow> jsonv \<Rightarrow> unit completion" where
  "log_lengths attractions restaurants =
     (case interpolation (odd_length attractions) of TypeErrorThrown \<Rightarrow> TypeErrorThrown
      | Normal a \<Rightarrow>
     (case interpolation (odd_length restaurants) of TypeErrorThrown \<Rightarrow> TypeErrorThrown
      | Normal r \<Rightarrow> Normal ()))"

text \<open>
  The handler. Unlike the city search it does not test the credential: the (possibly absent)
  value is sent upstream as it is. The two upstream calls are awaited in sequence. Every throw
  is caught by the one \<^verbatim>\<open>catch\<close>.
\<close>

definition recommendTrip ::
  "string option \<Rightarrow> 'd upstream \<Rightarrow> trip_recommend_request \<Rightarrow> 'd http_response" where
  "recommendTrip GOOGLE_PLACES_API_KEY upstream req =
     (case
        (case log_request req of TypeErrorThrown \<Rightarrow> Inl TypeError | Normal line \<Rightarrow>
         case interpolation (cityName req) of TypeErrorThrown \<Rightarrow> Inl TypeError
         | Normal city_text \<Rightarrow>
         case upstream GOOGLE_PLACES_API_KEY (''tourist attractions in '' @ city_text) of
           Inl error \<Rightarrow> Inl error
         | Inr attractions_data \<Rightarrow>
         case upstream GOOGLE_PLACES_API_KEY (''restaurants in '' @ city_text) of
           Inl error \<Rightarrow> Inl error
         | Inr restaurants_data \<Rightarrow>
         case places_or_empty attractions_data of TypeErrorThrown \<Rightarrow> Inl TypeError
         | Normal attractions \<Rightarrow>
         case places_or_empty restaurants_data of TypeErrorThrown \<Rightarrow> Inl TypeError
         | Normal restaurants \<Rightarrow>
         case log_lengths attractions restaurants of TypeErrorThrown \<Rightarrow> Inl TypeError
         | Normal u \<Rightarrow>
         case recommendation (cityName req) attractions restaurants of
           TypeErrorThrown \<Rightarrow> Inl TypeError
         | Normal r \<Rightarrow> Inr (RecommendationBody r))
      of
        Inr answer \<Rightarrow> res_json answer
      | Inl error \<Rightarrow>
          res_status_json 500
            (ErrorBody ''Failed to generate recommendations'' (details_of error)))"

section \<open>Frontend: the venue status widget\<close>

text \<open>
  Embedding of \<^verbatim>\<open>fetchVenueData\<close> in \<^verbatim>\<open>src/components/VenueStatus.tsx\<close>. The
  place details are the JSON of the directory's reply, typed \<^verbatim>\<open>any\<close> in the source.
\<close>

datatype crowd_level = Low | Moderate | High | VeryHigh

text \<open>
  What the widget's \<^verbatim>\<open>try\<close> block can throw: an \<^verbatim>\<open>Error\<close> instance with its
  message (the widget's own, the \<^verbatim>\<open>TypeError\<close> of a failed \<^verbatim>\<open>fetch\<close> or of a
  property read, the \<^verbatim>\<open>SyntaxError\<close> of \<^verbatim>\<open>response.json()\<close>), or a value that is
  no \<^verbatim>\<open>Error\<close>.
\<close>

datatype js_error = JsError string | NotAnError

text \<open>\<^verbatim>\<open>VenueData\<close>: fields copied from the reply and fields the widget fabricates.\<close>

record venue_data =
  name :: "jsonv option"
  crowdLevel :: crowd_level
  currentWaitTime :: "nat option"
  lastUpdated :: string
  isOperational :: jsonv
  rating :: "jsonv option"
  userRatingCount :: "jsonv option"
  formattedAddress :: "jsonv option"
  photos :: "jsonv option"
  currentOpeningHours :: "jsonv option"
  specialEvents :: "string list option"
  maintenanceAlerts :: "string list option"

record response =
  ok :: bool
  json :: "js_error + jsonv"

text \<open>
  What the browser supplies to one run of \<^verbatim>\<open>fetchVenueData\<close>: the public credential;
  \<^verbatim>\<open>fetch\<close> (URL and credential header to a rejection or a response); the local hour
  and the day of the week of \<^verbatim>\<open>new Date()\<close>, the day as the text of its number; the
  double that \<^verbatim>\<open>Math.random() * 30\<close> evaluates to; the timestamp string; and the
  message the engine gives its \<^verbatim>\<open>TypeError\<close>.
\<close>

record browser =
  NEXT_PUBLIC_GOOGLE_PLACES_API_KEY :: "string option"
  fetch :: "string \<Rightarrow> string \<Rightarrow> js_error + response"
  getHours :: int
  getDay :: string
  random_times_30 :: real
  toISOString :: string
  typeErrorMessage :: string

record widget_state =
  venueData :: "venue_data option"
  loading :: bool
  error :: "string option"

text \<open>Lines 66 to 74: the crowd level from the hour.\<close>

definition crowdLevelAt :: "int \<Rightarrow> crowd_level" where
  "crowdLevelAt hour =
     (if hour \<ge> 11 \<and> hour \<le> 14 \<or> hour \<ge> 18 \<and> hour \<le> 20 then High
      else if hour \<ge> 9 \<and> hour \<le> 17 then Moderate
      else Low)"

text \<open>
  An optional read \<^verbatim>\<open>v?.k\<close>, and a plain read \<^verbatim>\<open>v.k\<close> of a value known not to be
  \<^verbatim>\<open>null\<close>: \<^verbatim>\<open>undefined\<close> when \<open>v\<close> is \<^verbatim>\<open>undefined\<close> or \<^verbatim>\<open>null\<close>.
\<close>

definition optional_prop :: "jsonv option \<Rightarrow> string \<Rightarrow> jsonv option" where
  "optional_prop v k =
     (case v of
        None \<Rightarrow> None
      | Some x \<Rightarrow> (case get_prop x k of TypeErrorThrown \<Rightarrow> None | Normal r \<Rightarrow> r))"

text \<open>
  The callback of line 78 on each period in turn, \<^verbatim>\<open>period.open.day === today\<close>: the
  search stops at the first period of today; reading \<^verbatim>\<open>open\<close> of a \<^verbatim>\<open>null\<close>
  period, or \<^verbatim>\<open>day\<close> of a missing or \<^verbatim>\<open>null\<close> \<^verbatim>\<open>open\<close>, throws.
\<close>

fun find_period :: "string \<Rightarrow> jsonv list \<Rightarrow> jsonv option completion" where
  "find_period today [] = Normal None"
| "find_period today (period # rest) =
     (case get_prop period ''open'' of
        TypeErrorThrown \<Rightarrow> TypeErrorThrown
      | Normal None \<Rightarrow> TypeErrorThrown
      | Normal (Some opening) \<Rightarrow>
          (case get_prop opening ''day'' of
             TypeErrorThrown \<Rightarrow> TypeErrorThrown
           | Normal d \<Rightarrow>
               if d = Some (JNumber today) then Normal (Some period)
               else find_period today rest))"

text \<open>
  \<^verbatim>\<open>periods?.find(callback)\<close>: nothing is called on \<^verbatim>\<open>undefined\<close> or
  \<^verbatim>\<open>null\<close>; an array is searched; any other value has no \<^verbatim>\<open>find\<close> and the call
  throws.
\<close>

definition call_find :: "jsonv option \<Rightarrow> string \<Rightarrow> jsonv option completion" where
  "call_find periods today =
     (case periods of
        None \<Rightarrow> Normal None
      | Some JNull \<Rightarrow> Normal None
      | Some (JArray ps) \<Rightarrow> find_period today ps
      | Some other \<Rightarrow> TypeErrorThrown)"

text \<open>
  The body of the \<^verbatim>\<open>try\<close> block: \<open>Inl\<close> is a throw, \<open>Inr\<close> the argument of
  \<^verbatim>\<open>setVenueData\<close>.
\<close>

definition fetchVenueData_try :: "browser \<Rightarrow> string \<Rightarrow> js_error + venue_data" where
  "fetchVenueData_try env venueId =
     (case NEXT_PUBLIC_GOOGLE_PLACES_API_KEY env of
        None \<Rightarrow> Inl (JsError ''Google Places API key not configured'')
      | Some apiKey \<Rightarrow>
          if apiKey = [] then Inl (JsError ''Google Places API key not configured'')
          else
            (case fetch env (''https://places.googleapis.com/v1/places/'' @ venueId) apiKey of
               Inl e \<Rightarrow> Inl e
             | Inr resp \<Rightarrow>
                 if \<not> ok resp then Inl (JsError ''Failed to fetch venue data'')
                 else
                   (case json resp of
                      Inl e \<Rightarrow> Inl e
                    | Inr data \<Rightarrow>
                        (case get_prop data ''currentOpeningHours'' of
                           TypeErrorThrown \<Rightarrow> Inl (JsError (typeErrorMessage env))
                         | Normal hours \<Rightarrow>
                             (case call_find (optional_prop hours ''periods'') (getDay env) of
                                TypeErrorThrown \<Rightarrow> Inl (JsError (typeErrorMessage env))
                              | Normal currentPeriod \<Rightarrow>
                                  Inr \<lparr>name = optional_prop (Some data) ''name'',
                                       crowdLevel = crowdLevelAt (getHours env),
                                       currentWaitTime = Some (nat \<lfloor>random_times_30 env\<rfloor>),
                                       lastUpdated = toISOString env,
                                       isOperational =
                                         (case optional_prop hours ''openNow'' of
                                            None \<Rightarrow> JBool False
                                          | Some isOpen \<Rightarrow>
                                              if truthy isOpen then isOpen else JBool False),
                                       rating = optional_prop (Some data) ''rating'',
                                       userRatingCount =
                                         optional_prop (Some data) ''userRatingCount'',
                                       formattedAddress =
                                         optional_prop (Some data) ''formattedAddress'',
                                       photos = optional_prop (Some data) ''photos'',
                                       currentOpeningHours = hours,
                                       specialEvents = Some [],
                                       maintenanceAlerts = Some []\<rparr>)))))"

text \<open>
  One run of \<^verbatim>\<open>fetchVenueData\<close>, from the state it starts in to the state it leaves:
  \<^verbatim>\<open>catch\<close> stores the message, \<^verbatim>\<open>finally\<close> clears the loading flag.
\<close>

definition fetchVenueData :: "browser \<Rightarrow> string \<Rightarrow> widget_state \<Rightarrow> widget_state" where
  "fetchVenueData env venueId st =
     (let st1 = st\<lparr>loading := True, error := None\<rparr>;
          st2 =
            (case fetchVenueData_try env venueId of
               Inr d \<Rightarrow> st1\<lparr>venueData := Some d\<rparr>
             | Inl err \<Rightarrow>
                 st1\<lparr>error :=
                       Some (case err of
                               JsError message \<Rightarrow> message
                             | NotAnError \<Rightarrow> ''Failed to fetch venue data'')\<rparr>)
      in st2\<lparr>loading := False\<rparr>)"

section \<open>Frontend: the results page\<close>

subsection \<open>Photo URL of the variant that splits the resource name\<close>

text \<open>
  \<^verbatim>\<open>String.prototype.split\<close> with a one-character separator: the pieces between the
  separators, the empty string giving one empty piece.
\<close>

fun js_split :: "char \<Rightarrow> string \<Rightarrow> string list" where
  "js_split sep [] = [[]]"
| "js_split sep (c # cs) =
     (if c = sep then [] # js_split sep cs
      else (case js_split sep cs of
              [] \<Rightarrow> [[c]]
            | p # ps \<Rightarrow> (c # p) # ps))"

text \<open>\<^verbatim>\<open>parts[i]\<close>: \<^verbatim>\<open>undefined\<close> (\<open>None\<close>) beyond the end.\<close>

definition at_index :: "'a list \<Rightarrow> nat \<Rightarrow> 'a option" where
  "at_index xs i = (if i < length xs then Some (xs ! i) else None)"

text \<open>A template literal prints \<^verbatim>\<open>undefined\<close> as the nine letters.\<close>

definition interpolate :: "string option \<Rightarrow> string" where
  "interpolate v = (case v of None \<Rightarrow> ''undefined'' | Some s \<Rightarrow> s)"

text \<open>\<^verbatim>\<open>getPhotoUrl\<close> of \<^verbatim>\<open>PlaceCard\<close>, given the public credential.\<close>

definition getPhotoUrl :: "string option \<Rightarrow> string \<Rightarrow> string" where
  "getPhotoUrl apiKey photoReference =
     (if falsy apiKey then []
      else
        (let parts = js_split (CHR ''/'') photoReference in
         if length parts < 3 then []
         else
           (let placeId = at_index parts 1;
                photoId = at_index parts 3
            in ''https://places.googleapis.com/v1/places/'' @ interpolate placeId
               @ ''/photos/'' @ interpolate photoId
               @ ''/media?key='' @ interpolate apiKey @ ''&maxHeightPx=400'')))"

subsection \<open>Loading the persisted recommendation\<close>

text \<open>
  The \<^verbatim>\<open>Results\<close> component; its effect and render are the same text in both variants
  of the page. \<^verbatim>\<open>JSON.parse\<close> is the runtime's and is a parameter: \<open>Inl\<close> is the
  \<^verbatim>\<open>SyntaxError\<close> it throws on text that is not JSON.
\<close>

text \<open>The two \<^verbatim>\<open>useState\<close> cells; \<^verbatim>\<open>null\<close> is \<open>JNull\<close> and \<open>None\<close>.\<close>

record results_state =
  stored_recommendation :: jsonv
  stored_error :: "string option"

definition initial_state :: results_state where
  "initial_state = \<lparr>stored_recommendation = JNull, stored_error = None\<rparr>"

text \<open>
  The effect: \<open>localStorage\<close> maps a key to its stored string. \<open>Inl\<close> would be an exception
  leaving the effect.
\<close>

definition Results_useEffect ::
  "(string \<Rightarrow> js_error + jsonv) \<Rightarrow> (string \<rightharpoonup> string) \<Rightarrow> results_state
   \<Rightarrow> js_error + results_state" where
  "Results_useEffect JSON_parse localStorage st =
     (case localStorage ''tripRecommendations'' of
        None \<Rightarrow> Inr (st\<lparr>stored_error := Some ''No trip recommendations found''\<rparr>)
      | Some storedRecommendation \<Rightarrow>
          if storedRecommendation = []
          then Inr (st\<lparr>stored_error := Some ''No trip recommendations found''\<rparr>)
          else
            (case JSON_parse storedRecommendation of
               Inr v \<Rightarrow> Inr (st\<lparr>stored_recommendation := v\<rparr>)
             | Inl err \<Rightarrow>
                 Inr (st\<lparr>stored_error := Some ''Failed to load trip recommendations''\<rparr>)))"

text \<open>
  What \<^verbatim>\<open>Results\<close> returns: the error screen with its message and the route its button
  pushes, the spinner, or the itinerary of the stored recommendation.
\<close>

datatype view =
    ErrorScreen string string
  | Spinner
  | Itinerary jsonv

definition Results_render :: "results_state \<Rightarrow> view" where
  "Results_render st =
     (case (if falsy (stored_error st) then None else stored_error st) of
        Some message \<Rightarrow> ErrorScreen message ''/''
      | None \<Rightarrow>
          if \<not> truthy (stored_recommendation st) then Spinner
          else Itinerary (stored_recommendation st))"

text \<open>Mounting the page: the effect runs on the initial state, then the page renders.\<close>

definition Results ::
  "(string \<Rightarrow> js_error + jsonv) \<Rightarrow> (string \<rightharpoonup> string) \<Rightarrow> js_error + view" where
  "Results JSON_parse localStorage =
     (case Results_useEffect JSON_parse localStorage initial_state of
        Inl e \<Rightarrow> Inl e
      | Inr st \<Rightarrow> Inr (Results_render st))"

subsection \<open>The persisted form\<close>

text \<open>
  The page that stores the recommendation is not among the sources, and the serialiser and
  the parser are the runtime's. This subsection models them from the specification, which says
  that the whole recommendation object is serialised to JSON under a fixed key and parsed back
  by the results view. The text written is compact JSON; the parser accepts JSON text with
  white space.
\<close>

text \<open>
  Modelled from the spec: the runtime's serialiser is not among the sources; this is a
  hexadecimal digit, in lower case. In a string the quote and the backslash are escaped, a
  control character is written by its short escape or as \<^verbatim>\<open>\u00XX\<close>, and every
  other character stands for itself.
\<close>

definition hex_digit :: "nat \<Rightarrow> char" where
  "hex_digit n = (if n < 10 then char_of (48 + n) else char_of (87 + n))"

text \<open>
  Modelled from the spec: the runtime's serialiser is not among the sources; this is how it
  writes one character of a string.
\<close>

definition escape_char :: "char \<Rightarrow> string" where
  "escape_char c =
     (if c = CHR 0x22 then [CHR 0x5C, CHR 0x22]
      else if c = CHR 0x5C then [CHR 0x5C, CHR 0x5C]
      else if c = CHR 0x08 then [CHR 0x5C, CHR ''b'']
      else if c = CHR 0x0C then [CHR 0x5C, CHR ''f'']
      else if c = CHR 0x0A then [CHR 0x5C, CHR ''n'']
      else if c = CHR 0x0D then [CHR 0x5C, CHR ''r'']
      else if c = CHR 0x09 then [CHR 0x5C, CHR ''t'']
      else if (of_char c :: nat) < 32
      then [CHR 0x5C, CHR ''u'', CHR ''0'', CHR ''0'',
            hex_digit (of_char c div 16), hex_digit (of_char c mod 16)]
      else [c])"

text \<open>
  Modelled from the spec: the runtime's serialiser is not among the sources; this is a string
  in JSON text, escaped and between quotes.
\<close>

definition quote :: "string \<Rightarrow> string" where
  "quote s = CHR 0x22 # concat (map escape_char s) @ [CHR 0x22]"

text \<open>
  Modelled from the spec: the runtime's serialiser is not among the sources; this is
  \<^verbatim>\<open>JSON.stringify\<close> of a JSON value, without indentation. A
  number is written as the text it is carried as.
\<close>

fun JSON_stringify :: "jsonv \<Rightarrow> string"
  and stringify_elements :: "jsonv list \<Rightarrow> string"
  and stringify_members :: "(string \<times> jsonv) list \<Rightarrow> string"
where
  "JSON_stringify JNull = ''null''"
| "JSON_stringify (JBool b) = (if b then ''true'' else ''false'')"
| "JSON_stringify (JNumber t) = t"
| "JSON_stringify (JString s) = quote s"
| "JSON_stringify (JArray xs) = ''['' @ stringify_elements xs @ '']''"
| "JSON_stringify (JObject kvs) = ''{'' @ stringify_members kvs @ ''}''"
| "stringify_elements [] = []"
| "stringify_elements (x # xs) =
     (if xs = [] then JSON_stringify x
      else JSON_stringify x @ '','' @ stringify_elements xs)"
| "stringify_members [] = []"
| "stringify_members (kv # kvs) =
     (if kvs = [] then quote (fst kv) @ '':'' @ JSON_stringify (snd kv)
      else quote (fst kv) @ '':'' @ JSON_stringify (snd kv) @ '','' @ stringify_members kvs)"

text \<open>
  Modelled from the spec: the page that stores the recommendation is not among the sources;
  this is its call
  \<^verbatim>\<open>localStorage.setItem('tripRecommendations', JSON.stringify(recommendation))\<close>.
\<close>

definition persist :: "(string \<rightharpoonup> string) \<Rightarrow> jsonv \<Rightarrow> (string \<rightharpoonup> string)" where
  "persist localStorage v = localStorage(''tripRecommendations'' \<mapsto> JSON_stringify v)"

text \<open>
  Modelled from the spec: the runtime's parser is not among the sources; white space in JSON
  text is space, tab, line feed and carriage return. Each scanner below returns the text it
  read and what follows it.
\<close>

definition is_ws :: "char \<Rightarrow> bool" where
  "is_ws c = (c = CHR '' '' \<or> c = CHR 0x09 \<or> c = CHR 0x0A \<or> c = CHR 0x0D)"

text \<open>
  Modelled from the spec: the runtime's parser is not among the sources; it passes over white
  space.
\<close>

definition skip_ws :: "string \<Rightarrow> string" where
  "skip_ws s = dropWhile is_ws s"

text \<open>
  Modelled from the spec: the runtime's parser is not among the sources; these are the
  decimal digits.
\<close>

definition is_digit :: "char \<Rightarrow> bool" where
  "is_digit c = (c \<in> set ''0123456789'')"

text \<open>
  Modelled from the spec: the runtime's parser is not among the sources; the integer part of
  a number is a single zero, or a digit other than zero followed by digits.
\<close>

definition scan_int :: "string \<Rightarrow> (string \<times> string) option" where
  "scan_int s =
     (case s of
        [] \<Rightarrow> None
      | c # r \<Rightarrow>
          if c = CHR ''0'' then Some ([c], r)
          else if is_digit c then Some (c # takeWhile is_digit r, dropWhile is_digit r)
          else None)"

text \<open>
  Modelled from the spec: the runtime's parser is not among the sources; a fraction is a
  point followed by at least one digit.
\<close>

definition scan_frac :: "string \<Rightarrow> (string \<times> string) option" where
  "scan_frac s =
     (case s of
        [] \<Rightarrow> Some ([], s)
      | c # r \<Rightarrow>
          if c = CHR ''.''
          then (if takeWhile is_digit r = [] then None
                else Some (c # takeWhile is_digit r, dropWhile is_digit r))
          else Some ([], s))"

text \<open>
  Modelled from the spec: the runtime's parser is not among the sources; an exponent may
  carry a sign.
\<close>

definition scan_sign :: "string \<Rightarrow> string \<times> string" where
  "scan_sign s =
     (case s of
        [] \<Rightarrow> ([], s)
      | c # r \<Rightarrow> if c = CHR ''+'' \<or> c = CHR ''-'' then ([c], r) else ([], s))"

text \<open>
  Modelled from the spec: the runtime's parser is not among the sources; an exponent is the
  letter e, an optional sign and at least one digit.
\<close>

definition scan_exp :: "string \<Rightarrow> (string \<times> string) option" where
  "scan_exp s =
     (case s of
        [] \<Rightarrow> Some ([], s)
      | c # r \<Rightarrow>
          if c = CHR ''e'' \<or> c = CHR ''E''
          then (let sg = fst (scan_sign r); r1 = snd (scan_sign r) in
                if takeWhile is_digit r1 = [] then None
                else Some (c # sg @ takeWhile is_digit r1, dropWhile is_digit r1))
          else Some ([], s))"

text \<open>
  Modelled from the spec: the runtime's parser is not among the sources; a number is an
  optional minus sign, an integer part, an optional fraction and an optional exponent.
\<close>

definition scan_number :: "string \<Rightarrow> (string \<times> string) option" where
  "scan_number s =
     (let sg = (case s of [] \<Rightarrow> [] | c # r \<Rightarrow> if c = CHR ''-'' then [c] else []);
          s1 = drop (length sg) s in
      case scan_int s1 of
        None \<Rightarrow> None
      | Some (i, s2) \<Rightarrow>
          (case scan_frac s2 of
             None \<Rightarrow> None
           | Some (f, s3) \<Rightarrow>
               (case scan_exp s3 of
                  None \<Rightarrow> None
                | Some (e, s4) \<Rightarrow> Some (sg @ i @ f @ e, s4))))"

text \<open>
  Modelled from the spec: the runtime's parser is not among the sources; this is the value of
  a hexadecimal digit. In a string an escape stands for its character, \<^verbatim>\<open>\uXXXX\<close>
  stands for the code unit \<open>XXXX\<close>, and a raw control character is refused.
\<close>

definition hex_val :: "char \<Rightarrow> nat option" where
  "hex_val c =
     (let n = (of_char c :: nat) in
      if 48 \<le> n \<and> n \<le> 57 then Some (n - 48)
      else if 97 \<le> n \<and> n \<le> 102 then Some (n - 87)
      else if 65 \<le> n \<and> n \<le> 70 then Some (n - 55)
      else None)"

text \<open>
  Modelled from the spec: the runtime's parser is not among the sources; a code unit given by
  an escape is written into these byte strings as its UTF-8 bytes.
\<close>

definition utf8 :: "nat \<Rightarrow> string" where
  "utf8 n =
     (if n < 128 then [char_of n]
      else if n < 2048 then [char_of (192 + n div 64), char_of (128 + n mod 64)]
      else [char_of (224 + n div 4096), char_of (128 + (n div 64) mod 64),
            char_of (128 + n mod 64)])"

text \<open>
  Modelled from the spec: the runtime's parser is not among the sources; these are the
  characters of the short escapes.
\<close>

definition unescape :: "char \<Rightarrow> char option" where
  "unescape e =
     (if e = CHR 0x22 \<or> e = CHR 0x5C \<or> e = CHR ''/'' then Some e
      else if e = CHR ''b'' then Some (CHR 0x08)
      else if e = CHR ''f'' then Some (CHR 0x0C)
      else if e = CHR ''n'' then Some (CHR 0x0A)
      else if e = CHR ''r'' then Some (CHR 0x0D)
      else if e = CHR ''t'' then Some (CHR 0x09)
      else None)"

text \<open>
  Modelled from the spec: the runtime's parser is not among the sources; it reads the
  characters of a string up to the closing quote, and an escape after its backslash.
\<close>

fun parse_chars :: "string \<Rightarrow> (string \<times> string) option"
  and parse_escape :: "string \<Rightarrow> (string \<times> string) option"
where
  "parse_chars [] = None"
| "parse_chars (c # cs) =
     (if c = CHR 0x22 then Some ([], cs)
      else if c = CHR 0x5C then parse_escape cs
      else if (of_char c :: nat) < 32 then None
      else (case parse_chars cs of
              None \<Rightarrow> None
            | Some (s, r) \<Rightarrow> Some (c # s, r)))"
| "parse_escape [] = None"
| "parse_escape (e # cs) =
     (if e = CHR ''u''
      then (case cs of
              h1 # h2 # h3 # h4 # r \<Rightarrow>
                (case (hex_val h1, hex_val h2, hex_val h3, hex_val h4) of
                   (Some a, Some b, Some c, Some d) \<Rightarrow>
                     (case parse_chars r of
                        None \<Rightarrow> None
                      | Some (s, r') \<Rightarrow> Some (utf8 (((a * 16 + b) * 16 + c) * 16 + d) @ s, r'))
                 | _ \<Rightarrow> None)
            | _ \<Rightarrow> None)
      else (case unescape e of
              None \<Rightarrow> None
            | Some ch \<Rightarrow>
                (case parse_chars cs of
                   None \<Rightarrow> None
                 | Some (s, r) \<Rightarrow> Some (ch # s, r))))"

text \<open>
  Modelled from the spec: the runtime's parser is not among the sources; this sets a property
  of the object under construction. A key that
  occurs again in the text replaces the value it had, as in \<^verbatim>\<open>JSON.parse\<close>.
\<close>

fun set_prop :: "(string \<times> jsonv) list \<Rightarrow> string \<Rightarrow> jsonv \<Rightarrow> (string \<times> jsonv) list" where
  "set_prop [] k v = [(k, v)]"
| "set_prop (kv # kvs) k v =
     (if fst kv = k then (k, v) # kvs else kv # set_prop kvs k v)"

text \<open>
  Modelled from the spec: the runtime's parser is not among the sources; the members read
  for an object are set one after the other.
\<close>

definition last_wins :: "(string \<times> jsonv) list \<Rightarrow> (string \<times> jsonv) list" where
  "last_wins kvs = foldl (\<lambda>acc kv. set_prop acc (fst kv) (snd kv)) [] kvs"

text \<open>
  Modelled from the spec: the runtime's parser is not among the sources; it works by recursive
  descent. Each function returns what it read
  and the text after it, or \<open>None\<close> for text that is not JSON. The first argument bounds the
  nesting and the number of elements still to read, and goes down at every bracket and comma;
  the length of the text is always enough.
\<close>

fun parse_value :: "nat \<Rightarrow> string \<Rightarrow> (jsonv \<times> string) option"
  and parse_elements :: "nat \<Rightarrow> string \<Rightarrow> (jsonv list \<times> string) option"
  and parse_members :: "nat \<Rightarrow> string \<Rightarrow> ((string \<times> jsonv) list \<times> string) option"
where
  "parse_value 0 s = None"
| "parse_value (Suc n) s =
     (case skip_ws s of
        [] \<Rightarrow> None
      | c # r \<Rightarrow>
          if c = CHR ''n'' then (if take 3 r = ''ull'' then Some (JNull, drop 3 r) else None)
          else if c = CHR ''t''
          then (if take 3 r = ''rue'' then Some (JBool True, drop 3 r) else None)
          else if c = CHR ''f''
          then (if take 4 r = ''alse'' then Some (JBool False, drop 4 r) else None)
          else if c = CHR 0x22
          then (case parse_chars r of
                  None \<Rightarrow> None
                | Some (str, r') \<Rightarrow> Some (JString str, r'))
          else if c = CHR ''[''
          then (if take 1 (skip_ws r) = '']'' then Some (JArray [], drop 1 (skip_ws r))
                else (case parse_elements n r of
                        None \<Rightarrow> None
                      | Some (xs, r') \<Rightarrow> Some (JArray xs, r')))
          else if c = CHR ''{''
          then (if take 1 (skip_ws r) = ''}'' then Some (JObject [], drop 1 (skip_ws r))
                else (case parse_members n r of
                        None \<Rightarrow> None
                      | Some (kvs, r') \<Rightarrow> Some (JObject (last_wins kvs), r')))
          else (case scan_number (c # r) of
                  None \<Rightarrow> None
                | Some (t, r') \<Rightarrow> Some (JNumber t, r')))"
| "parse_elements n s =
     (case parse_value n s of
        None \<Rightarrow> None
      | Some (x, r) \<Rightarrow>
          (case skip_ws r of
             [] \<Rightarrow> None
           | c # r' \<Rightarrow>
               if c = CHR '']'' then Some ([x], r')
               else if c = CHR '',''
               then (case n of
                       0 \<Rightarrow> None
                     | Suc m \<Rightarrow>
                         (case parse_elements m r' of
                            None \<Rightarrow> None
                          | Some (xs, r'') \<Rightarrow> Some (x # xs, r'')))
               else None))"
| "parse_members n s =
     (case skip_ws s of
        [] \<Rightarrow> None
      | q # r0 \<Rightarrow>
          if q \<noteq> CHR 0x22 then None
          else
            (case parse_chars r0 of
               None \<Rightarrow> None
             | Some (k, r1) \<Rightarrow>
                 (case skip_ws r1 of
                    [] \<Rightarrow> None
                  | colon # r2 \<Rightarrow>
                      if colon \<noteq> CHR '':'' then None
                      else
                        (case parse_value n r2 of
                           None \<Rightarrow> None
                         | Some (v, r3) \<Rightarrow>
                             (case skip_ws r3 of
                                [] \<Rightarrow> None
                              | c # r4 \<Rightarrow>
                                  if c = CHR ''}'' then Some ([(k, v)], r4)
                                  else if c = CHR '',''
                                  then (case n of
                                          0 \<Rightarrow> None
                                        | Suc m \<Rightarrow>
                                            (case parse_members m r4 of
                                               None \<Rightarrow> None
                                             | Some (kvs, r5) \<Rightarrow> Some ((k, v) # kvs, r5)))
                                  else None)))))"

text \<open>
  Modelled from the spec: the runtime's parser is not among the sources; this is
  \<^verbatim>\<open>JSON.parse\<close>. The text must be one value, with nothing but
  white space after it; otherwise a \<^verbatim>\<open>SyntaxError\<close> is thrown (its message is the
  engine's and is not read by the page).
\<close>

definition JSON_parse :: "string \<Rightarrow> js_error + jsonv" where
  "JSON_parse s =
     (case parse_value (Suc (length s)) s of
        None \<Rightarrow> Inl (JsError ''SyntaxError'')
      | Some (v, r) \<Rightarrow> if skip_ws r = [] then Inr v else Inl (JsError ''SyntaxError''))"

text \<open>
  Modelled from the spec: a JSON numeral is a text the number scanner reads whole.
\<close>

definition valid_numeral :: "string \<Rightarrow> bool" where
  "valid_numeral t = (scan_number t = Some (t, []))"

text \<open>
  Modelled from the spec: a structurally valid JSON value, the objects the round trip is
  stated for. Its numbers are JSON numerals and no object has a key twice.
\<close>

fun valid_json :: "jsonv \<Rightarrow> bool"
  and valid_elements :: "jsonv list \<Rightarrow> bool"
  and valid_members :: "(string \<times> jsonv) list \<Rightarrow> bool"
where
  "valid_json JNull = True"
| "valid_json (JBool b) = True"
| "valid_json (JNumber t) = valid_numeral t"
| "valid_json (JString s) = True"
| "valid_json (JArray xs) = valid_elements xs"
| "valid_json (JObject kvs) = (distinct (map fst kvs) \<and> valid_members kvs)"
| "valid_elements [] = True"
| "valid_elements (x # xs) = (valid_json x \<and> valid_elements xs)"
| "valid_members [] = True"
| "valid_members (kv # kvs) = (valid_json (snd kv) \<and> valid_members kvs)"

text \<open>
  Modelled from the spec: what can follow a value in the text the serialiser writes: the end
  of the text, a comma, or a closing bracket or brace.
\<close>

definition at_value_end :: "string \<Rightarrow> bool" where
  "at_value_end rest =
     (case rest of [] \<Rightarrow> True | c # r \<Rightarrow> c = CHR '','' \<or> c = CHR '']'' \<or> c = CHR ''}'')"


section \<open>Properties of the backend\<close>

subsection \<open>Slices\<close>

lemma length_slice:
  "0 \<le> a \<Longrightarrow> a \<le> b \<Longrightarrow>
   int (length (slice xs a b)) = min (b - a) (max 0 (int (length xs) - a))"
  by (auto simp: slice_def Let_def min_def max_def)

lemma take_drop_nth:
  "take n (drop a xs) = map ((!) xs) [a ..< min (a + n) (length xs)]"
  by (rule nth_equalityI) auto

lemma slice_nth:
  "slice xs (int a) (int b) = map ((!) xs) [a ..< min b (length xs)]"
proof (cases "a \<le> b")
  case True
  then have "slice xs (int a) (int b) = take (min b (length xs) - a) (drop a xs)"
    by (auto simp: slice_def Let_def min_def max_def nat_diff_distrib')
  also have "\<dots> = map ((!) xs) [a ..< min b (length xs)]"
    using True by (auto simp: take_drop_nth min_def)
  finally show ?thesis .
next
  case False
  then show ?thesis
    by (auto simp: slice_def Let_def min_def max_def)
qed

lemma slice_windows:
  "slice xs 0 2 = map ((!) xs) [0 ..< min 2 (length xs)]"
  "slice xs 2 4 = map ((!) xs) [2 ..< min 4 (length xs)]"
  "slice xs 4 6 = map ((!) xs) [4 ..< min 6 (length xs)]"
  "slice xs 6 8 = map ((!) xs) [6 ..< min 8 (length xs)]"
  using slice_nth [of xs 0 2] slice_nth [of xs 2 4] slice_nth [of xs 4 6] slice_nth [of xs 6 8]
  by simp_all

subsection \<open>Printing\<close>

lemma interpolation_string: "interpolation (Some (JString s)) = Normal s"
  by (simp add: interpolation_def)

lemma log_lengths_arrays: "log_lengths (JArray as) (JArray rs) = Normal ()"
  by (simp add: log_lengths_def odd_length_def interpolation_def)

subsection \<open>The recommend endpoint\<close>

lemma recommendation_arrays:
  "recommendation c (JArray as) (JArray rs) =
     Normal
       \<lparr>city = c,
        day1 =
          \<lparr>morning =
             \<lparr>title = ''Morning Exploration'',
              description = ''Start your day exploring the city's main attractions'',
              places = JArray (slice as 0 2)\<rparr>,
           afternoon =
             \<lparr>title = ''Afternoon Activities'',
              description = ''Continue discovering the city's highlights'',
              places = JArray (slice as 2 4)\<rparr>,
           evening =
             \<lparr>title = ''Evening Entertainment'',
              description = ''Enjoy dinner and evening activities'',
              places = JArray (slice rs 0 2)\<rparr>\<rparr>,
        day2 =
          \<lparr>morning =
             \<lparr>title = ''Morning Activities'',
              description = ''Start your second day with local experiences'',
              places = JArray (slice as 4 6)\<rparr>,
           afternoon =
             \<lparr>title = ''Afternoon Exploration'',
              description = ''More city highlights and activities'',
              places = JArray (slice as 6 8)\<rparr>,
           evening =
             \<lparr>title = ''Farewell Evening'',
              description = ''End your trip with memorable experiences'',
              places = JArray (slice rs 2 4)\<rparr>\<rparr>\<rparr>"
  by (simp add: recommendation_def call_slice_def)

lemma recommendation_places:
  assumes "recommendation c (JArray as) (JArray rs) = Normal r"
  shows "places (morning (day1 r)) = JArray (map ((!) as) [0 ..< min 2 (length as)])"
    and "places (afternoon (day1 r)) = JArray (map ((!) as) [2 ..< min 4 (length as)])"
    and "places (morning (day2 r)) = JArray (map ((!) as) [4 ..< min 6 (length as)])"
    and "places (afternoon (day2 r)) = JArray (map ((!) as) [6 ..< min 8 (length as)])"
    and "places (evening (day1 r)) = JArray (map ((!) rs) [0 ..< min 2 (length rs)])"
    and "places (evening (day2 r)) = JArray (map ((!) rs) [2 ..< min 4 (length rs)])"
  using assms unfolding recommendation_arrays
  by (auto simp: slice_windows)

lemma recommendTrip_success:
  assumes "interpolation (cityName req) = Normal city_text"
      and "interpolation (budget req) = Normal b"
      and "interpolation (tripType req) = Normal t"
      and "upstream key (''tourist attractions in '' @ city_text) = Inr adata"
      and "upstream key (''restaurants in '' @ city_text) = Inr rdata"
      and "places_or_empty adata = Normal (JArray as)"
      and "places_or_empty rdata = Normal (JArray rs)"
      and "recommendation (cityName req) (JArray as) (JArray rs) = Normal r"
  shows "recommendTrip key upstream req = \<lparr>status = 200, body = RecommendationBody r\<rparr>"
  using assms
  by (simp add: recommendTrip_def log_request_def log_lengths_arrays res_json_def)

text \<open>
  Claim C1. Whenever the request's three fields can be printed, both upstream calls resolve and
  the two values of \<^verbatim>\<open>response.data.places || []\<close> are arrays, of \<open>A\<close> attractions and
  \<open>R\<close> restaurants (an absent \<^verbatim>\<open>places\<close> field counting as the empty array), the endpoint
  answers 200 with a recommendation whose attraction slots day1.morning, day1.afternoon,
  day2.morning and day2.afternoon hold exactly \<open>min 2 (max 0 (A - k))\<close> places for
  \<open>k = 0, 2, 4, 6\<close>, and whose restaurant slots day1.evening and day2.evening hold exactly
  \<open>min 2 (max 0 (R - k))\<close> places for \<open>k = 0, 2\<close>.
\<close>

theorem recommend_slot_sizes:
  assumes "interpolation (cityName req) = Normal city_text"
      and "interpolation (budget req) = Normal b"
      and "interpolation (tripType req) = Normal t"
      and "upstream key (''tourist attractions in '' @ city_text) = Inr adata"
      and "upstream key (''restaurants in '' @ city_text) = Inr rdata"
      and "places_or_empty adata = Normal (JArray as)"
      and "places_or_empty rdata = Normal (JArray rs)"
  shows "\<exists>r m1 a1 m2 a2 e1 e2.
     recommendTrip key upstream req = \<lparr>status = 200, body = RecommendationBody r\<rparr> \<and>
     places (morning (day1 r)) = JArray m1 \<and>
     int (length m1) = min 2 (max 0 (int (length as) - 0)) \<and>
     places (afternoon (day1 r)) = JArray a1 \<and>
     int (length a1) = min 2 (max 0 (int (length as) - 2)) \<and>
     places (morning (day2 r)) = JArray m2 \<and>
     int (length m2) = min 2 (max 0 (int (length as) - 4)) \<and>
     places (afternoon (day2 r)) = JArray a2 \<and>
     int (length a2) = min 2 (max 0 (int (length as) - 6)) \<and>
     places (evening (day1 r)) = JArray e1 \<and>
     int (length e1) = min 2 (max 0 (int (length rs) - 0)) \<and>
     places (evening (day2 r)) = JArray e2 \<and>
     int (length e2) = min 2 (max 0 (int (length rs) - 2))"
proof -
  obtain r where r: "recommendation (cityName req) (JArray as) (JArray rs) = Normal r"
    by (simp add: recommendation_arrays)
  have "recommendTrip key upstream req = \<lparr>status = 200, body = RecommendationBody r\<rparr>"
    using assms r by (rule recommendTrip_success [of req city_text b t upstream key adata rdata])
  moreover have "places (morning (day1 r)) = JArray (slice as 0 2)"
    "places (afternoon (day1 r)) = JArray (slice as 2 4)"
    "places (morning (day2 r)) = JArray (slice as 4 6)"
    "places (afternoon (day2 r)) = JArray (slice as 6 8)"
    "places (evening (day1 r)) = JArray (slice rs 0 2)"
    "places (evening (day2 r)) = JArray (slice rs 2 4)"
    using r unfolding recommendation_arrays by auto
  ultimately show ?thesis
    by (simp add: length_slice)
qed

theorem recommend_slot_sizes_witness:
  "interpolation (cityName \<lparr>cityName = Some (JString ''Paris''), budget = Some (JString ''medium''),
      tripType = Some (JString ''culture'')\<rparr>) = Normal ''Paris'' \<and>
   interpolation (budget \<lparr>cityName = Some (JString ''Paris''), budget = Some (JString ''medium''),
      tripType = Some (JString ''culture'')\<rparr>) = Normal ''medium'' \<and>
   interpolation (tripType \<lparr>cityName = Some (JString ''Paris''), budget = Some (JString ''medium''),
      tripType = Some (JString ''culture'')\<rparr>) = Normal ''culture'' \<and>
   (\<exists>r m1 a1 m2 a2 e1 e2.
      recommendTrip None (\<lambda>k q. if q = ''tourist attractions in Paris''
            then Inr (JObject [(''places'', JArray [JObject [(''id'', JString ''a1'')], JObject [(''id'', JString ''a2'')], JObject [(''id'', JString ''a3'')]])])
            else Inr (JObject [(''places'', JArray [JObject [(''id'', JString ''r1'')]])]))
        \<lparr>cityName = Some (JString ''Paris''), budget = Some (JString ''medium''),
      tripType = Some (JString ''culture'')\<rparr>
        = (\<lparr>status = 200, body = RecommendationBody r\<rparr> :: unit http_response) \<and>
      places (morning (day1 r)) = JArray m1 \<and> int (length m1) = 2 \<and>
      places (afternoon (day1 r)) = JArray a1 \<and> int (length a1) = 1 \<and>
      places (morning (day2 r)) = JArray m2 \<and> int (length m2) = 0 \<and>
      places (afternoon (day2 r)) = JArray a2 \<and> int (length a2) = 0 \<and>
      places (evening (day1 r)) = JArray e1 \<and> int (length e1) = 1 \<and>
      places (evening (day2 r)) = JArray e2 \<and> int (length e2) = 0)"
proof -
  let ?up = "(\<lambda>k q. if q = ''tourist attractions in Paris''
            then Inr (JObject [(''places'', JArray [JObject [(''id'', JString ''a1'')], JObject [(''id'', JString ''a2'')], JObject [(''id'', JString ''a3'')]])])
            else Inr (JObject [(''places'', JArray [JObject [(''id'', JString ''r1'')]])])) :: unit upstream"
  let ?req = "\<lparr>cityName = Some (JString ''Paris''), budget = Some (JString ''medium''),
      tripType = Some (JString ''culture'')\<rparr>"
  have i: "interpolation (cityName ?req) = Normal ''Paris''"
    "interpolation (budget ?req) = Normal ''medium''"
    "interpolation (tripType ?req) = Normal ''culture''"
    by (simp_all add: interpolation_def)
  have a: "?up None (''tourist attractions in '' @ ''Paris'')
             = Inr (JObject [(''places'', JArray [JObject [(''id'', JString ''a1'')], JObject [(''id'', JString ''a2'')], JObject [(''id'', JString ''a3'')]])])"
    by simp
  have b: "?up None (''restaurants in '' @ ''Paris'')
             = Inr (JObject [(''places'', JArray [JObject [(''id'', JString ''r1'')]])])"
    by simp
  have pa: "places_or_empty (JObject [(''places'', JArray [JObject [(''id'', JString ''a1'')], JObject [(''id'', JString ''a2'')], JObject [(''id'', JString ''a3'')]])]) = Normal (JArray [JObject [(''id'', JString ''a1'')], JObject [(''id'', JString ''a2'')], JObject [(''id'', JString ''a3'')]])"
    by (simp add: places_or_empty_def get_prop_def truthy_opt_def)
  have pb: "places_or_empty (JObject [(''places'', JArray [JObject [(''id'', JString ''r1'')]])]) = Normal (JArray [JObject [(''id'', JString ''r1'')]])"
    by (simp add: places_or_empty_def get_prop_def truthy_opt_def)
  from recommend_slot_sizes [of ?req "''Paris''" "''medium''" "''culture''" ?up None, OF i a b pa pb] i
  show ?thesis by simp
qed

text \<open>
  Claim C4, as stated, fails: the log of line 176 prints \<^verbatim>\<open>budget\<close>, and a budget that
  cannot be printed (an object with a \<^verbatim>\<open>toString\<close> key) throws inside the
  \<^verbatim>\<open>try\<close>. With the same city and the same upstream, the budget \<^verbatim>\<open>"medium"\<close> is
  answered 200 and the budget \<^verbatim>\<open>{"toString":0,"valueOf":0}\<close> is answered 500.
\<close>

theorem recommend_budget_counterexample:
  "status (recommendTrip None (\<lambda>k q. if q = ''tourist attractions in Paris''
            then Inr (JObject [(''places'', JArray [JObject [(''id'', JString ''a1'')], JObject [(''id'', JString ''a2'')], JObject [(''id'', JString ''a3'')]])])
            else Inr (JObject [(''places'', JArray [JObject [(''id'', JString ''r1'')]])]))
      \<lparr>cityName = Some (JString ''Paris''), budget = Some (JString ''medium''),
      tripType = Some (JString ''culture'')\<rparr> :: unit http_response) = 200 \<and>
   (recommendTrip None (\<lambda>k q. if q = ''tourist attractions in Paris''
            then Inr (JObject [(''places'', JArray [JObject [(''id'', JString ''a1'')], JObject [(''id'', JString ''a2'')], JObject [(''id'', JString ''a3'')]])])
            else Inr (JObject [(''places'', JArray [JObject [(''id'', JString ''r1'')]])]))
      \<lparr>cityName = Some (JString ''Paris''),
      budget = Some (JObject [(''toString'', JNumber ''0''), (''valueOf'', JNumber ''0'')]),
      tripType = Some (JString ''culture'')\<rparr> :: unit http_response)
     = \<lparr>status = 500,
        body = ErrorBody ''Failed to generate recommendations'' (Thrown TypeError)\<rparr>"
  by (simp add: recommendTrip_def log_request_def interpolation_def places_or_empty_def
      get_prop_def truthy_opt_def log_lengths_arrays recommendation_arrays res_json_def
      res_status_json_def details_of_def)

text \<open>
  Claim C4, amended. For every city name and every fixed upstream, two requests that differ
  only in \<^verbatim>\<open>budget\<close> and \<^verbatim>\<open>tripType\<close>, all four values being printable by a template
  literal (as every string is), get the same response: the same status and body, hence the
  same recommendation object.
\<close>

theorem recommend_ignores_budget_and_tripType:
  assumes "interpolation b1 \<noteq> TypeErrorThrown" and "interpolation t1 \<noteq> TypeErrorThrown"
      and "interpolation b2 \<noteq> TypeErrorThrown" and "interpolation t2 \<noteq> TypeErrorThrown"
  shows "recommendTrip key upstream \<lparr>cityName = c, budget = b1, tripType = t1\<rparr> =
         recommendTrip key upstream \<lparr>cityName = c, budget = b2, tripType = t2\<rparr>"
proof -
  from assms obtain sb1 st1 sb2 st2
    where "interpolation b1 = Normal sb1" and "interpolation t1 = Normal st1"
      and "interpolation b2 = Normal sb2" and "interpolation t2 = Normal st2"
    by (meson completion.exhaust)
  then show ?thesis
    by (cases "interpolation c")
      (simp_all add: recommendTrip_def log_request_def
        cong: sum.case_cong completion.case_cong)
qed

theorem recommend_ignores_budget_and_tripType_witness:
  "interpolation (Some (JString ''medium'')) \<noteq> TypeErrorThrown \<and>
   interpolation (Some (JString ''culture'')) \<noteq> TypeErrorThrown \<and>
   interpolation (Some (JNumber ''300'')) \<noteq> TypeErrorThrown \<and>
   interpolation None \<noteq> TypeErrorThrown \<and>
   recommendTrip None (\<lambda>k q. if q = ''tourist attractions in Paris''
            then Inr (JObject [(''places'', JArray [JObject [(''id'', JString ''a1'')], JObject [(''id'', JString ''a2'')], JObject [(''id'', JString ''a3'')]])])
            else Inr (JObject [(''places'', JArray [JObject [(''id'', JString ''r1'')]])]))
     \<lparr>cityName = Some (JString ''Paris''), budget = Some (JString ''medium''),
      tripType = Some (JString ''culture'')\<rparr>
   = (recommendTrip None (\<lambda>k q. if q = ''tourist attractions in Paris''
            then Inr (JObject [(''places'', JArray [JObject [(''id'', JString ''a1'')], JObject [(''id'', JString ''a2'')], JObject [(''id'', JString ''a3'')]])])
            else Inr (JObject [(''places'', JArray [JObject [(''id'', JString ''r1'')]])]))
     \<lparr>cityName = Some (JString ''Paris''), budget = Some (JNumber ''300''),
      tripType = None\<rparr> :: unit http_response)"
proof -
  have i: "interpolation (Some (JString ''medium'')) \<noteq> TypeErrorThrown"
    "interpolation (Some (JString ''culture'')) \<noteq> TypeErrorThrown"
    "interpolation (Some (JNumber ''300'')) \<noteq> TypeErrorThrown"
    "interpolation None \<noteq> TypeErrorThrown"
    by (simp_all add: interpolation_def)
  from recommend_ignores_budget_and_tripType [OF i] i
  show ?thesis by simp
qed

text \<open>
  Claim C2, as stated, fails: with three attractions and one restaurant the slot day1.evening
  is \<^verbatim>\<open>restaurants.slice(0, 2)\<close>, which holds the one restaurant, not zero places.
\<close>

theorem paris_day1_evening_counterexample:
  "(case body (recommendTrip None (\<lambda>k q. if q = ''tourist attractions in Paris''
            then Inr (JObject [(''places'', JArray [JObject [(''id'', JString ''a1'')], JObject [(''id'', JString ''a2'')], JObject [(''id'', JString ''a3'')]])])
            else Inr (JObject [(''places'', JArray [JObject [(''id'', JString ''r1'')]])]))
      \<lparr>cityName = Some (JString ''Paris''), budget = Some (JString ''medium''),
      tripType = Some (JString ''culture'')\<rparr> :: unit http_response) of
      RecommendationBody r \<Rightarrow> Some (places (evening (day1 r)))
    | _ \<Rightarrow> None)
   = Some (JArray [JObject [(''id'', JString ''r1'')]]) \<and>
   length [JObject [(''id'', JString ''r1'')]] \<noteq> 0"
  by (simp add: recommendTrip_def log_request_def interpolation_def places_or_empty_def
      get_prop_def truthy_opt_def log_lengths_arrays recommendation_arrays res_json_def
      slice_windows)

text \<open>
  Claim C2, amended. For \<^verbatim>\<open>recommendTrip("Paris", "medium", "culture")\<close> with the upstream
  returning exactly three attractions and one restaurant, day1.morning has 2 places,
  day1.afternoon has 1, day1.evening has 1 (the only restaurant), and the three slots of day2
  are empty.
\<close>

theorem paris_three_attractions_one_restaurant:
  assumes "length as = 3" and "length rs = 1"
      and "upstream key ''tourist attractions in Paris'' = Inr adata"
      and "upstream key ''restaurants in Paris'' = Inr rdata"
      and "places_or_empty adata = Normal (JArray as)"
      and "places_or_empty rdata = Normal (JArray rs)"
  shows "\<exists>r m1 a1 e1.
           recommendTrip key upstream
               \<lparr>cityName = Some (JString ''Paris''), budget = Some (JString ''medium''),
      tripType = Some (JString ''culture'')\<rparr>
             = \<lparr>status = 200, body = RecommendationBody r\<rparr> \<and>
           places (morning (day1 r)) = JArray m1 \<and> length m1 = 2 \<and>
           places (afternoon (day1 r)) = JArray a1 \<and> length a1 = 1 \<and>
           places (evening (day1 r)) = JArray e1 \<and> length e1 = 1 \<and>
           places (morning (day2 r)) = JArray [] \<and>
           places (afternoon (day2 r)) = JArray [] \<and>
           places (evening (day2 r)) = JArray []"
proof -
  let ?req = "\<lparr>cityName = Some (JString ''Paris''), budget = Some (JString ''medium''),
      tripType = Some (JString ''culture'')\<rparr>"
  obtain r where r: "recommendation (cityName ?req) (JArray as) (JArray rs) = Normal r"
    by (simp add: recommendation_arrays)
  have "recommendTrip key upstream ?req = \<lparr>status = 200, body = RecommendationBody r\<rparr>"
    using assms(3-6) r
    by (intro recommendTrip_success
          [of ?req "''Paris''" "''medium''" "''culture''" upstream key adata rdata as rs r])
       (simp_all add: interpolation_def)
  with recommendation_places [OF r] assms(1,2) show ?thesis
    by simp
qed

theorem paris_three_attractions_one_restaurant_witness:
  "length [JObject [(''id'', JString ''a1'')], JObject [(''id'', JString ''a2'')], JObject [(''id'', JString ''a3'')]] = 3 \<and>
   length [JObject [(''id'', JString ''r1'')]] = 1 \<and>
   places_or_empty (JObject [(''places'', JArray [JObject [(''id'', JString ''a1'')], JObject [(''id'', JString ''a2'')], JObject [(''id'', JString ''a3'')]])])
     = Normal (JArray [JObject [(''id'', JString ''a1'')], JObject [(''id'', JString ''a2'')], JObject [(''id'', JString ''a3'')]]) \<and>
   places_or_empty (JObject [(''places'', JArray [JObject [(''id'', JString ''r1'')]])])
     = Normal (JArray [JObject [(''id'', JString ''r1'')]]) \<and>
   (\<exists>r m1 a1 e1.
      recommendTrip None (\<lambda>k q. if q = ''tourist attractions in Paris''
            then Inr (JObject [(''places'', JArray [JObject [(''id'', JString ''a1'')], JObject [(''id'', JString ''a2'')], JObject [(''id'', JString ''a3'')]])])
            else Inr (JObject [(''places'', JArray [JObject [(''id'', JString ''r1'')]])]))
        \<lparr>cityName = Some (JString ''Paris''), budget = Some (JString ''medium''),
      tripType = Some (JString ''culture'')\<rparr>
        = (\<lparr>status = 200, body = RecommendationBody r\<rparr> :: unit http_response) \<and>
      places (morning (day1 r)) = JArray m1 \<and> length m1 = 2 \<and>
      places (afternoon (day1 r)) = JArray a1 \<and> length a1 = 1 \<and>
      places (evening (day1 r)) = JArray e1 \<and> length e1 = 1 \<and>
      places (morning (day2 r)) = JArray [] \<and>
      places (afternoon (day2 r)) = JArray [] \<and>
      places (evening (day2 r)) = JArray [])"
proof -
  let ?up = "(\<lambda>k q. if q = ''tourist attractions in Paris''
            then Inr (JObject [(''places'', JArray [JObject [(''id'', JString ''a1'')], JObject [(''id'', JString ''a2'')], JObject [(''id'', JString ''a3'')]])])
            else Inr (JObject [(''places'', JArray [JObject [(''id'', JString ''r1'')]])])) :: unit upstream"
  have a: "?up None ''tourist attractions in Paris''
             = Inr (JObject [(''places'', JArray [JObject [(''id'', JString ''a1'')], JObject [(''id'', JString ''a2'')], JObject [(''id'', JString ''a3'')]])])"
    by simp
  have b: "?up None ''restaurants in Paris''
             = Inr (JObject [(''places'', JArray [JObject [(''id'', JString ''r1'')]])])"
    by simp
  have pa: "places_or_empty (JObject [(''places'', JArray [JObject [(''id'', JString ''a1'')], JObject [(''id'', JString ''a2'')], JObject [(''id'', JString ''a3'')]])]) = Normal (JArray [JObject [(''id'', JString ''a1'')], JObject [(''id'', JString ''a2'')], JObject [(''id'', JString ''a3'')]])"
    by (simp add: places_or_empty_def get_prop_def truthy_opt_def)
  have pb: "places_or_empty (JObject [(''places'', JArray [JObject [(''id'', JString ''r1'')]])]) = Normal (JArray [JObject [(''id'', JString ''r1'')]])"
    by (simp add: places_or_empty_def get_prop_def truthy_opt_def)
  from paris_three_attractions_one_restaurant
         [of "[JObject [(''id'', JString ''a1'')], JObject [(''id'', JString ''a2'')], JObject [(''id'', JString ''a3'')]]" "[JObject [(''id'', JString ''r1'')]]" ?up None, OF _ _ a b pa pb] pa pb
  show ?thesis by simp
qed

text \<open>
  Claim C5, as stated, fails on the total: eight attractions and four restaurants fill the six
  slots with twelve places, more than eight.
\<close>

theorem slots_total_counterexample:
  "(case recommendation (Some (JString ''Paris''))
           (JArray [JString ''a1'', JString ''a2'', JString ''a3'', JString ''a4'',
         JString ''a5'', JString ''a6'', JString ''a7'', JString ''a8''])
           (JArray [JString ''r1'', JString ''r2'', JString ''r3'', JString ''r4'']) of
      Normal r \<Rightarrow>
        map places [morning (day1 r), afternoon (day1 r), evening (day1 r),
                    morning (day2 r), afternoon (day2 r), evening (day2 r)]
    | TypeErrorThrown \<Rightarrow> [])
   = [JArray [JString ''a1'', JString ''a2''], JArray [JString ''a3'', JString ''a4''],
      JArray [JString ''r1'', JString ''r2''], JArray [JString ''a5'', JString ''a6''],
      JArray [JString ''a7'', JString ''a8''], JArray [JString ''r3'', JString ''r4'']] \<and>
   \<not> length [JString ''a1'', JString ''a2''] + length [JString ''a3'', JString ''a4'']
       + length [JString ''r1'', JString ''r2''] + length [JString ''a5'', JString ''a6'']
       + length [JString ''a7'', JString ''a8''] + length [JString ''r3'', JString ''r4'']
     \<le> 8"
  by (simp add: recommendation_arrays slice_windows)

text \<open>
  Claim C5, amended. In every recommendation the assembler constructs from two arrays, each
  slot is the run of its source array over an index window: the attraction slots over
  \<open>[0, 2)\<close>, \<open>[2, 4)\<close>, \<open>[4, 6)\<close>, \<open>[6, 8)\<close> and the restaurant slots over \<open>[0, 2)\<close>,
  \<open>[2, 4)\<close>, each cut at the array's length. The windows over one array are pairwise disjoint
  (their indices, listed one window after the other, are distinct). The attraction slots hold
  at most 8 places and the restaurant slots at most 4, so at most 12 in total. A slot whose
  window starts at or beyond the end of its array is empty.
\<close>

theorem slots_are_disjoint_windows:
  "\<exists>r m1 a1 m2 a2 e1 e2.
    recommendation c (JArray as) (JArray rs) = Normal r \<and>
    places (morning (day1 r)) = JArray m1 \<and> m1 = map ((!) as) [0 ..< min 2 (length as)] \<and>
    places (afternoon (day1 r)) = JArray a1 \<and> a1 = map ((!) as) [2 ..< min 4 (length as)] \<and>
    places (morning (day2 r)) = JArray m2 \<and> m2 = map ((!) as) [4 ..< min 6 (length as)] \<and>
    places (afternoon (day2 r)) = JArray a2 \<and> a2 = map ((!) as) [6 ..< min 8 (length as)] \<and>
    places (evening (day1 r)) = JArray e1 \<and> e1 = map ((!) rs) [0 ..< min 2 (length rs)] \<and>
    places (evening (day2 r)) = JArray e2 \<and> e2 = map ((!) rs) [2 ..< min 4 (length rs)] \<and>
    distinct ([0 ..< min 2 (length as)] @ [2 ..< min 4 (length as)]
              @ [4 ..< min 6 (length as)] @ [6 ..< min 8 (length as)]) \<and>
    distinct ([0 ..< min 2 (length rs)] @ [2 ..< min 4 (length rs)]) \<and>
    length m1 + length a1 + length m2 + length a2 \<le> 8 \<and>
    length e1 + length e2 \<le> 4 \<and>
    (length as \<le> 2 \<longrightarrow> a1 = []) \<and>
    (length as \<le> 4 \<longrightarrow> m2 = []) \<and>
    (length as \<le> 6 \<longrightarrow> a2 = []) \<and>
    (length rs \<le> 2 \<longrightarrow> e2 = [])"
proof -
  obtain r where r: "recommendation c (JArray as) (JArray rs) = Normal r"
    by (simp add: recommendation_arrays)
  have d: "distinct ([0 ..< min 2 (length as)] @ [2 ..< min 4 (length as)]
              @ [4 ..< min 6 (length as)] @ [6 ..< min 8 (length as)])"
    "distinct ([0 ..< min 2 (length rs)] @ [2 ..< min 4 (length rs)])"
    by auto
  from r recommendation_places [OF r] d show ?thesis
    by (simp del: distinct_append upt_eq_Nil_conv) auto
qed

theorem slots_are_disjoint_windows_witness:
  "length [JString ''a1''] \<le> 2 \<and> length [JString ''a1''] \<le> 4 \<and>
   length [JString ''a1''] \<le> 6 \<and> length [JString ''r1''] \<le> 2 \<and>
   (case recommendation (Some (JString ''Paris'')) (JArray [JString ''a1''])
           (JArray [JString ''r1'']) of
      Normal r \<Rightarrow>
        map places [morning (day1 r), afternoon (day1 r), evening (day1 r),
                    morning (day2 r), afternoon (day2 r), evening (day2 r)]
    | TypeErrorThrown \<Rightarrow> [])
   = [JArray [JString ''a1''], JArray [], JArray [JString ''r1''],
      JArray [], JArray [], JArray []]"
  using slots_are_disjoint_windows
          [of "Some (JString ''Paris'')" "[JString ''a1'']" "[JString ''r1'']"]
  by auto

subsection \<open>The city search endpoint\<close>





section \<open>Properties of the venue status widget\<close>

lemma fetchVenueData_try_crowdLevel:
  "fetchVenueData_try env venueId = Inr d \<Longrightarrow> crowdLevel d = crowdLevelAt (getHours env)"
  by (auto simp: fetchVenueData_try_def
      split: option.splits if_splits sum.splits completion.splits)

lemma fetchVenueData_no_error:
  "error (fetchVenueData env venueId st) = None \<Longrightarrow>
   \<exists>d. fetchVenueData_try env venueId = Inr d \<and> venueData (fetchVenueData env venueId st) = Some d"
  by (auto simp: fetchVenueData_def Let_def split: sum.splits)

text \<open>
  Claim C3. For every hour \<open>h\<close> (in particular every hour from 0 to 23) the crowd level is
  \<open>High\<close> if and only if \<open>h\<close> is in 11..14 or 18..20, \<open>Moderate\<close> if and only if \<open>h\<close> is in
  9..17 and the level is not \<open>High\<close>, and \<open>Low\<close> if and only if neither. The level depends on
  the hour alone: whatever the venue, the credential, the directory's answer and the previous
  state, a run of \<^verbatim>\<open>fetchVenueData\<close> at hour \<open>h\<close> that ends without an error has stored
  venue data whose crowd level is the level of \<open>h\<close>.
\<close>

theorem crowd_level_by_hour:
  "(crowdLevelAt h = High \<longleftrightarrow> h \<in> {11..14} \<union> {18..20}) \<and>
   (crowdLevelAt h = Moderate \<longleftrightarrow> h \<in> {9..17} \<and> crowdLevelAt h \<noteq> High) \<and>
   (crowdLevelAt h = Low \<longleftrightarrow> h \<notin> {11..14} \<union> {18..20} \<and> h \<notin> {9..17}) \<and>
   (getHours env = h \<and> error (fetchVenueData env venueId st) = None \<longrightarrow>
      (\<exists>d. venueData (fetchVenueData env venueId st) = Some d \<and> crowdLevel d = crowdLevelAt h))"
proof (intro conjI impI)
  show "crowdLevelAt h = High \<longleftrightarrow> h \<in> {11..14} \<union> {18..20}"
    by (auto simp: crowdLevelAt_def)
  show "crowdLevelAt h = Moderate \<longleftrightarrow> h \<in> {9..17} \<and> crowdLevelAt h \<noteq> High"
    by (auto simp: crowdLevelAt_def)
  show "crowdLevelAt h = Low \<longleftrightarrow> h \<notin> {11..14} \<union> {18..20} \<and> h \<notin> {9..17}"
    by (auto simp: crowdLevelAt_def)
next
  assume a: "getHours env = h \<and> error (fetchVenueData env venueId st) = None"
  then obtain d where "fetchVenueData_try env venueId = Inr d"
    and "venueData (fetchVenueData env venueId st) = Some d"
    using fetchVenueData_no_error by blast
  with a show "\<exists>d. venueData (fetchVenueData env venueId st) = Some d \<and> crowdLevel d = crowdLevelAt h"
    using fetchVenueData_try_crowdLevel by blast
qed

theorem crowd_level_by_hour_witness:
  "crowdLevelAt 12 = High \<and> crowdLevelAt 19 = High \<and> crowdLevelAt 10 = Moderate \<and>
   crowdLevelAt 16 = Moderate \<and> crowdLevelAt 17 = Moderate \<and> crowdLevelAt 3 = Low \<and>
   crowdLevelAt 21 = Low \<and>
   error (fetchVenueData
      \<lparr>NEXT_PUBLIC_GOOGLE_PLACES_API_KEY = Some ''k'',
       fetch = (\<lambda>url key. Inr \<lparr>ok = True,
                  json = Inr (JObject
                    [(''name'', JString url),
                     (''currentOpeningHours'',
                      JObject [(''openNow'', JBool True),
                               (''periods'',
                                JArray [JObject [(''open'', JObject [(''day'', JNumber ''1'')])],
                                        JObject [(''open'', JObject [(''day'', JNumber ''2'')])]])])])\<rparr>),
       getHours = 12, getDay = ''2'', random_times_30 = 0,
       toISOString = ''2024-01-02T12:00:00.000Z'', typeErrorMessage = ''TypeError''\<rparr>
      ''louvre'' \<lparr>venueData = None, loading = True, error = None\<rparr>) = None \<and>
   map_option crowdLevel (venueData (fetchVenueData
      \<lparr>NEXT_PUBLIC_GOOGLE_PLACES_API_KEY = Some ''k'',
       fetch = (\<lambda>url key. Inr \<lparr>ok = True,
                  json = Inr (JObject
                    [(''name'', JString url),
                     (''currentOpeningHours'',
                      JObject [(''openNow'', JBool True),
                               (''periods'',
                                JArray [JObject [(''open'', JObject [(''day'', JNumber ''1'')])],
                                        JObject [(''open'', JObject [(''day'', JNumber ''2'')])]])])])\<rparr>),
       getHours = 12, getDay = ''2'', random_times_30 = 0,
       toISOString = ''2024-01-02T12:00:00.000Z'', typeErrorMessage = ''TypeError''\<rparr>
      ''louvre'' \<lparr>venueData = None, loading = True, error = None\<rparr>)) = Some High"
proof -
  let ?env = "\<lparr>NEXT_PUBLIC_GOOGLE_PLACES_API_KEY = Some ''k'',
       fetch = (\<lambda>url key. Inr \<lparr>ok = True,
                  json = Inr (JObject
                    [(''name'', JString url),
                     (''currentOpeningHours'',
                      JObject [(''openNow'', JBool True),
                               (''periods'',
                                JArray [JObject [(''open'', JObject [(''day'', JNumber ''1'')])],
                                        JObject [(''open'', JObject [(''day'', JNumber ''2'')])]])])])\<rparr>),
       getHours = 12, getDay = ''2'', random_times_30 = 0,
       toISOString = ''2024-01-02T12:00:00.000Z'', typeErrorMessage = ''TypeError''\<rparr>"
  let ?st = "\<lparr>venueData = None, loading = True, error = None\<rparr>"
  have e: "error (fetchVenueData ?env ''louvre'' ?st) = None"
    by (simp add: fetchVenueData_def fetchVenueData_try_def Let_def get_prop_def
        optional_prop_def call_find_def)
  from crowd_level_by_hour [of 12 ?env "''louvre''" ?st] e
  have "\<exists>d. venueData (fetchVenueData ?env ''louvre'' ?st) = Some d \<and> crowdLevel d = High"
    by auto
  then have "map_option crowdLevel (venueData (fetchVenueData ?env ''louvre'' ?st)) = Some High"
    by auto
  with e crowd_level_by_hour [of 12] crowd_level_by_hour [of 19] crowd_level_by_hour [of 10]
    crowd_level_by_hour [of 16] crowd_level_by_hour [of 17] crowd_level_by_hour [of 3]
    crowd_level_by_hour [of 21]
  show ?thesis by (simp add: crowdLevelAt_def)
qed

text \<open>
  Claim C10. Although the type of \<^verbatim>\<open>crowdLevel\<close> admits \<^verbatim>\<open>'Very High'\<close>, the
  computation never produces it: for every hour the level is one of \<open>Low\<close>, \<open>Moderate\<close>,
  \<open>High\<close>, and so is the crowd level of every value the widget passes to
  \<^verbatim>\<open>setVenueData\<close>.
\<close>

theorem crowd_level_never_very_high:
  "crowdLevelAt h \<in> {Low, Moderate, High} \<and> crowdLevelAt h \<noteq> VeryHigh \<and>
   (case fetchVenueData_try env venueId of
      Inl e \<Rightarrow> True
    | Inr d \<Rightarrow> crowdLevel d \<in> {Low, Moderate, High} \<and> crowdLevel d \<noteq> VeryHigh)"
proof -
  have a: "crowdLevelAt x \<in> {Low, Moderate, High} \<and> crowdLevelAt x \<noteq> VeryHigh" for x
    by (simp add: crowdLevelAt_def)
  have "crowdLevel d \<in> {Low, Moderate, High} \<and> crowdLevel d \<noteq> VeryHigh"
    if "fetchVenueData_try env venueId = Inr d" for d
    using a [of "getHours env"] fetchVenueData_try_crowdLevel [OF that] by simp
  with a [of h] show ?thesis
    by (simp split: sum.split)
qed

section \<open>Properties of the results page\<close>

text \<open>
  Claim C8. Whenever the value stored under \<^verbatim>\<open>tripRecommendations\<close> is absent, or is
  text on which \<^verbatim>\<open>JSON.parse\<close> throws, the effect ends normally (no exception leaves it)
  in a state with a non-empty error message and no recommendation, and the page renders the
  error screen with that message and the button that routes back to the start page.
\<close>

theorem Results_error_state:
  assumes "localStorage ''tripRecommendations'' = None \<or>
           (\<exists>s e. localStorage ''tripRecommendations'' = Some s \<and> parse s = Inl e)"
  shows "\<exists>message. message \<noteq> [] \<and>
           Results_useEffect parse localStorage initial_state
             = Inr \<lparr>stored_recommendation = JNull, stored_error = Some message\<rparr> \<and>
           Results parse localStorage = Inr (ErrorScreen message ''/'')"
  using assms
  by (auto simp: Results_def Results_useEffect_def Results_render_def initial_state_def falsy_def)

theorem Results_error_state_witness:
  "Results (\<lambda>s. Inl (JsError ''Unexpected token'')) Map.empty
     = Inr (ErrorScreen ''No trip recommendations found'' ''/'') \<and>
   Results (\<lambda>s. if s = ''null'' then Inr JNull else Inl (JsError ''Unexpected token''))
       [''tripRecommendations'' \<mapsto> ''{city:'']
     = Inr (ErrorScreen ''Failed to load trip recommendations'' ''/'')"
proof -
  let ?p = "\<lambda>s. if s = ''null'' then Inr JNull else Inl (JsError ''Unexpected token'')"
  let ?m = "[''tripRecommendations'' \<mapsto> ''{city:'']"
  have "\<exists>message. Results (\<lambda>s. Inl (JsError ''Unexpected token'')) Map.empty
          = Inr (ErrorScreen message ''/'')"
    using Results_error_state [of Map.empty "\<lambda>s. Inl (JsError ''Unexpected token'')"] by auto
  moreover have "\<exists>message. Results ?p ?m = Inr (ErrorScreen message ''/'')"
    using Results_error_state [of ?m ?p] by auto
  ultimately show ?thesis
    by (simp add: Results_def Results_useEffect_def Results_render_def initial_state_def falsy_def)
qed

text \<open>
  When the stored text parses, the effect stores the parsed value as it is: the reader drops
  or changes no field of what \<^verbatim>\<open>JSON.parse\<close> returned.
\<close>

lemma Results_keeps_parsed_value:
  "localStorage ''tripRecommendations'' = Some s \<Longrightarrow> s \<noteq> [] \<Longrightarrow> parse s = Inr v \<Longrightarrow>
   Results_useEffect parse localStorage initial_state
     = Inr \<lparr>stored_recommendation = v, stored_error = None\<rparr>"
  by (simp add: Results_useEffect_def initial_state_def)

subsection \<open>The photo URL\<close>

text \<open>
  The URL is empty exactly when the credential is missing or the reference has fewer than
  three segments; a reference has one segment more than it has separators.
\<close>

lemma getPhotoUrl_empty_iff:
  "getPhotoUrl apiKey photoReference = [] \<longleftrightarrow>
     falsy apiKey \<or> length (js_split (CHR ''/'') photoReference) < 3"
  by (simp add: getPhotoUrl_def Let_def)

lemma length_js_split: "length (js_split sep s) = Suc (count_list s sep)"
  by (induction s) (auto split: list.splits)

text \<open>
  Claim C6 at a reference of three segments. The guard \<^verbatim>\<open>parts.length < 3\<close> lets it
  pass, \<^verbatim>\<open>parts[3]\<close> is \<^verbatim>\<open>undefined\<close>, and the returned URL is not empty and has
  \<^verbatim>\<open>undefined\<close> as its photo segment.
\<close>

theorem getPhotoUrl_three_segments:
  "getPhotoUrl (Some ''KEY'') ''places/abc/photos'' =
     ''https://places.googleapis.com/v1/places/abc/photos/undefined/media?key=KEY&maxHeightPx=400''"
  by (simp add: getPhotoUrl_def falsy_def at_index_def interpolate_def)

section \<open>Properties of the persisted form\<close>

subsection \<open>Strings\<close>

lemma hex_val_hex_digit: "k < 16 \<Longrightarrow> hex_val (hex_digit k) = Some k"
  by (auto simp: hex_val_def hex_digit_def Let_def)

lemma char_of_of_char_nat: "char_of (of_char c :: nat) = c"
  by simp

lemma parse_chars_escape_char:
  "parse_chars (escape_char c @ t) =
     (case parse_chars t of None \<Rightarrow> None | Some (s, r) \<Rightarrow> Some (c # s, r))"
proof -
  consider (short) "c = CHR 0x22 \<or> c = CHR 0x5C \<or> c = CHR 0x08 \<or> c = CHR 0x0C \<or>
      c = CHR 0x0A \<or> c = CHR 0x0D \<or> c = CHR 0x09"
    | (control) "\<not> (c = CHR 0x22 \<or> c = CHR 0x5C \<or> c = CHR 0x08 \<or> c = CHR 0x0C \<or>
      c = CHR 0x0A \<or> c = CHR 0x0D \<or> c = CHR 0x09)" "(of_char c :: nat) < 32"
    | (plain) "\<not> (c = CHR 0x22 \<or> c = CHR 0x5C \<or> c = CHR 0x08 \<or> c = CHR 0x0C \<or>
      c = CHR 0x0A \<or> c = CHR 0x0D \<or> c = CHR 0x09)" "\<not> (of_char c :: nat) < 32"
    by blast
  then show ?thesis
  proof cases
    case short
    then show ?thesis
      by (auto simp: escape_char_def unescape_def split: option.splits)
  next
    case control
    let ?n = "of_char c :: nat"
    have h: "hex_val (hex_digit (?n div 16)) = Some (?n div 16)"
      "hex_val (hex_digit (?n mod 16)) = Some (?n mod 16)"
      using control(2) by (simp_all add: hex_val_hex_digit)
    have z: "hex_val (CHR ''0'') = Some 0"
      by (simp add: hex_val_def)
    have u: "utf8 ?n = [c]"
      using control(2) by (simp add: utf8_def)
    from control show ?thesis
      by (simp add: escape_char_def h z u split: option.splits)
  next
    case plain
    then show ?thesis
      by (simp add: escape_char_def split: option.splits)
  qed
qed

lemma parse_chars_quoted:
  "parse_chars (concat (map escape_char s) @ CHR 0x22 # rest) = Some (s, rest)"
  by (induction s) (simp_all add: parse_chars_escape_char)

subsection \<open>Numbers\<close>

lemma takeWhile_append_stop:
  "ys = [] \<or> \<not> P (hd ys) \<Longrightarrow> takeWhile P (xs @ ys) = takeWhile P xs"
  by (induction xs) (cases ys; auto)+

lemma dropWhile_append_stop:
  "ys = [] \<or> \<not> P (hd ys) \<Longrightarrow> dropWhile P (xs @ ys) = dropWhile P xs @ ys"
  by (induction xs) (cases ys; auto)+

lemma at_value_end_digit: "at_value_end rest \<Longrightarrow> rest = [] \<or> \<not> is_digit (hd rest)"
  by (auto simp: at_value_end_def is_digit_def split: list.splits)

lemma digits_append:
  assumes "at_value_end rest"
  shows "takeWhile is_digit (xs @ rest) = takeWhile is_digit xs"
    and "dropWhile is_digit (xs @ rest) = dropWhile is_digit xs @ rest"
  using at_value_end_digit [OF assms]
  by (simp_all add: takeWhile_append_stop dropWhile_append_stop)

lemma scan_int_append:
  "scan_int s = Some (a, r) \<Longrightarrow> at_value_end rest \<Longrightarrow> scan_int (s @ rest) = Some (a, r @ rest)"
  by (auto simp: scan_int_def digits_append split: list.splits if_splits)

lemma scan_frac_append:
  "scan_frac s = Some (a, r) \<Longrightarrow> at_value_end rest \<Longrightarrow> scan_frac (s @ rest) = Some (a, r @ rest)"
  by (cases s; cases rest)
     (auto simp: scan_frac_def digits_append at_value_end_def split: list.splits if_splits)

lemma scan_sign_append:
  "r \<noteq> [] \<Longrightarrow> scan_sign (r @ rest) = (fst (scan_sign r), snd (scan_sign r) @ rest)"
  by (cases r) (auto simp: scan_sign_def)

lemma scan_exp_append:
  "scan_exp s = Some (a, r) \<Longrightarrow> at_value_end rest \<Longrightarrow> scan_exp (s @ rest) = Some (a, r @ rest)"
proof (cases s)
  case Nil
  assume "scan_exp s = Some (a, r)" and "at_value_end rest"
  with Nil show ?thesis
    by (cases rest) (auto simp: scan_exp_def at_value_end_def)
next
  case (Cons c r0)
  assume a: "scan_exp s = Some (a, r)" and e: "at_value_end rest"
  show ?thesis
  proof (cases "c = CHR ''e'' \<or> c = CHR ''E''")
    case False
    with a Cons show ?thesis
      by (auto simp: scan_exp_def)
  next
    case True
    with a Cons have "r0 \<noteq> []"
      by (auto simp: scan_exp_def scan_sign_def Let_def split: if_splits)
    with a Cons True e show ?thesis
      by (auto simp: scan_exp_def Let_def scan_sign_append digits_append split: if_splits)
  qed
qed

lemma scan_number_append:
  assumes "scan_number t = Some (a, r)" and "at_value_end rest"
  shows "scan_number (t @ rest) = Some (a, r @ rest)"
proof -
  from assms(1) have ne: "t \<noteq> []"
    by (auto simp: scan_number_def scan_int_def Let_def)
  define sg where "sg = (case t of [] \<Rightarrow> [] | c # r \<Rightarrow> if c = CHR ''-'' then [c] else [])"
  have sg: "(case t @ rest of [] \<Rightarrow> [] | c # r \<Rightarrow> if c = CHR ''-'' then [c] else []) = sg"
    using ne by (cases t) (auto simp: sg_def)
  have len: "length sg \<le> length t"
    using ne by (cases t) (auto simp: sg_def)
  from assms(1) obtain i s2 f s3 e where
    i: "scan_int (drop (length sg) t) = Some (i, s2)" and
    f: "scan_frac s2 = Some (f, s3)" and
    e: "scan_exp s3 = Some (e, r)" and
    a: "a = sg @ i @ f @ e"
    by (auto simp: scan_number_def Let_def sg_def [symmetric] split: option.splits)
  from len have d: "drop (length sg) (t @ rest) = drop (length sg) t @ rest"
    by simp
  show ?thesis
    unfolding scan_number_def Let_def sg d
    using scan_int_append [OF i assms(2)] scan_frac_append [OF f assms(2)]
      scan_exp_append [OF e assms(2)] a
    by simp
qed

lemma valid_numeral_append:
  "valid_numeral t \<Longrightarrow> at_value_end rest \<Longrightarrow> scan_number (t @ rest) = Some (t, rest)"
  using scan_number_append [of t t "[]" rest] by (simp add: valid_numeral_def)

lemma valid_numeral_first:
  "valid_numeral t \<Longrightarrow> \<exists>c cs. t = c # cs \<and> (c = CHR ''-'' \<or> is_digit c)"
  by (cases t)
     (auto simp: valid_numeral_def scan_number_def scan_int_def Let_def is_digit_def
       split: if_splits option.splits list.splits)

subsection \<open>Objects\<close>

lemma set_prop_fresh: "k \<notin> fst ` set acc \<Longrightarrow> set_prop acc k v = acc @ [(k, v)]"
  by (induction acc) auto

lemma foldl_set_prop_distinct:
  "distinct (map fst (acc @ kvs)) \<Longrightarrow>
   foldl (\<lambda>acc kv. set_prop acc (fst kv) (snd kv)) acc kvs = acc @ kvs"
proof (induction kvs arbitrary: acc)
  case Nil
  then show ?case by simp
next
  case (Cons kv kvs)
  then have "set_prop acc (fst kv) (snd kv) = acc @ [kv]"
    by (simp add: set_prop_fresh)
  with Cons.IH [of "acc @ [kv]"] Cons.prems show ?case
    by simp
qed

lemma last_wins_distinct: "distinct (map fst kvs) \<Longrightarrow> last_wins kvs = kvs"
  using foldl_set_prop_distinct [of "[]" kvs] by (simp add: last_wins_def)

subsection \<open>Values\<close>

lemma skip_ws_start: "\<not> is_ws c \<Longrightarrow> skip_ws (c # cs) = c # cs"
  by (simp add: skip_ws_def)

lemma JSON_stringify_first:
  "valid_json v \<Longrightarrow>
   \<exists>c cs. JSON_stringify v = c # cs \<and> \<not> is_ws c \<and> c \<noteq> CHR '']'' \<and> c \<noteq> CHR ''}''"
proof (cases v)
  case (JNumber t)
  assume "valid_json v"
  with JNumber valid_numeral_first [of t] show ?thesis
    by (auto simp: is_ws_def is_digit_def)
qed (auto simp: is_ws_def quote_def)

lemma parse_value_null:
  "parse_value (Suc n) (''null'' @ rest) = Some (JNull, rest)"
  by (simp add: skip_ws_def is_ws_def)

lemma parse_value_bool:
  "parse_value (Suc n) ((if b then ''true'' else ''false'') @ rest) = Some (JBool b, rest)"
  by (simp add: skip_ws_def is_ws_def)

lemma parse_value_string:
  "parse_value (Suc n) (quote s @ rest) = Some (JString s, rest)"
  by (simp add: quote_def skip_ws_def is_ws_def parse_chars_quoted)

lemma parse_value_number:
  assumes "valid_numeral t" and "at_value_end rest"
  shows "parse_value (Suc n) (t @ rest) = Some (JNumber t, rest)"
proof -
  from valid_numeral_first [OF assms(1)] obtain c cs
    where t: "t = c # cs" and c: "c = CHR ''-'' \<or> is_digit c"
    by blast
  from c have "\<not> is_ws c" "c \<noteq> CHR ''n''" "c \<noteq> CHR ''t''" "c \<noteq> CHR ''f''"
    "c \<noteq> CHR 0x22" "c \<noteq> CHR ''[''" "c \<noteq> CHR ''{''"
    by (auto simp: is_ws_def is_digit_def)
  moreover have "scan_number (c # cs @ rest) = Some (t, rest)"
    using valid_numeral_append [OF assms] t by simp
  ultimately show ?thesis
    by (simp add: t skip_ws_start)
qed

lemma JSON_stringify_nonempty: "valid_json v \<Longrightarrow> 0 < length (JSON_stringify v)"
  using JSON_stringify_first [of v] by auto

lemma stringify_elements_first:
  "valid_elements xs \<Longrightarrow> xs \<noteq> [] \<Longrightarrow>
   \<exists>c cs. stringify_elements xs = c # cs \<and> \<not> is_ws c \<and> c \<noteq> CHR '']''"
  using JSON_stringify_first [of "hd xs"] by (cases xs) auto

lemma stringify_members_first:
  "kvs \<noteq> [] \<Longrightarrow> \<exists>cs. stringify_members kvs = CHR 0x22 # cs"
  by (cases kvs) (auto simp: quote_def)

lemma parse_elements_step:
  assumes "parse_value n (tx @ rest') = Some (x, rest')"
  shows "rest' = CHR '']'' # rest \<Longrightarrow> parse_elements n (tx @ rest') = Some ([x], rest)"
    and "rest' = CHR '','' # tl_text \<Longrightarrow> n = Suc m \<Longrightarrow> parse_elements m tl_text = Some (xs, rest) \<Longrightarrow>
         parse_elements n (tx @ rest') = Some (x # xs, rest)"
  using assms by (simp_all add: skip_ws_start is_ws_def)

lemma parse_members_step:
  assumes "parse_value n (tv @ rest') = Some (v, rest')"
  shows "rest' = CHR ''}'' # rest \<Longrightarrow>
         parse_members n (quote k @ CHR '':'' # tv @ rest') = Some ([(k, v)], rest)"
    and "rest' = CHR '','' # tl_text \<Longrightarrow> n = Suc m \<Longrightarrow> parse_members m tl_text = Some (kvs, rest) \<Longrightarrow>
         parse_members n (quote k @ CHR '':'' # tv @ rest') = Some ((k, v) # kvs, rest)"
  using assms
  by (simp_all add: quote_def skip_ws_start is_ws_def parse_chars_quoted)

lemma round_trip_aux:
  shows "valid_json v \<Longrightarrow> at_value_end rest \<Longrightarrow> length (JSON_stringify v) \<le> n \<Longrightarrow>
         parse_value n (JSON_stringify v @ rest) = Some (v, rest)"
    and "valid_elements xs \<Longrightarrow> xs \<noteq> [] \<Longrightarrow> length (stringify_elements xs) < n \<Longrightarrow>
         parse_elements n (stringify_elements xs @ CHR '']'' # rest) = Some (xs, rest)"
    and "valid_members kvs \<Longrightarrow> kvs \<noteq> [] \<Longrightarrow> length (stringify_members kvs) < n \<Longrightarrow>
         parse_members n (stringify_members kvs @ CHR ''}'' # rest) = Some (kvs, rest)"
proof (induction v and xs and kvs arbitrary: n rest and n rest and n rest
       rule: valid_json_valid_elements_valid_members.induct)
  case 1
  then obtain m where "n = Suc m" by (cases n) auto
  then show ?case using parse_value_null by simp
next
  case (2 b)
  then obtain m where "n = Suc m" by (cases n) (auto split: if_splits)
  then show ?case using parse_value_bool [of m b rest] by simp
next
  case (3 t)
  from valid_numeral_first [of t] 3 obtain m where "n = Suc m"
    by (cases n) auto
  with 3 show ?case using parse_value_number [of t rest m] by simp
next
  case (4 s)
  then obtain m where "n = Suc m" by (cases n) (auto simp: quote_def)
  then show ?case using parse_value_string [of m s rest] by simp
next
  case (5 xs)
  then obtain m where n: "n = Suc m" by (cases n) auto
  show ?case
  proof (cases "xs = []")
    case True
    then show ?thesis
      by (simp add: n skip_ws_start is_ws_def)
  next
    case False
    from 5 have v: "valid_elements xs" by simp
    from stringify_elements_first [OF v False] obtain c cs
      where c: "stringify_elements xs = c # cs" "\<not> is_ws c" "c \<noteq> CHR '']''"
      by blast
    from 5 n have "length (stringify_elements xs) < m" by simp
    from "5.IH" [OF v False this, of rest]
    have "parse_elements m (stringify_elements xs @ CHR '']'' # rest) = Some (xs, rest)" .
    moreover have "take 1 (skip_ws (stringify_elements xs @ CHR '']'' # rest)) \<noteq> '']''"
      using c by (simp add: skip_ws_start)
    ultimately show ?thesis
      by (simp add: n skip_ws_start is_ws_def)
  qed
next
  case (6 kvs)
  then obtain m where n: "n = Suc m" by (cases n) auto
  show ?case
  proof (cases "kvs = []")
    case True
    then show ?thesis
      by (simp add: n skip_ws_start is_ws_def last_wins_def)
  next
    case False
    from 6 have v: "valid_members kvs" and d: "distinct (map fst kvs)" by simp_all
    from stringify_members_first [OF False] obtain cs
      where c: "stringify_members kvs = CHR 0x22 # cs"
      by blast
    from 6 n have "length (stringify_members kvs) < m" by simp
    from "6.IH" [OF v False this, of rest]
    have "parse_members m (stringify_members kvs @ CHR ''}'' # rest) = Some (kvs, rest)" .
    moreover have "take 1 (skip_ws (stringify_members kvs @ CHR ''}'' # rest)) \<noteq> ''}''"
      using c by (simp add: skip_ws_start is_ws_def)
    ultimately show ?thesis
      by (simp add: n skip_ws_start is_ws_def last_wins_distinct [OF d])
  qed
next
  case 7
  then show ?case by simp
next
  case (8 x xs)
  from "8.prems" have vx: "valid_json x" and vxs: "valid_elements xs" by simp_all
  show ?case
  proof (cases "xs = []")
    case True
    with "8.prems" have l: "length (JSON_stringify x) \<le> n" by simp
    have "parse_value n (JSON_stringify x @ CHR '']'' # rest) = Some (x, CHR '']'' # rest)"
      using "8.IH"(1) [OF vx _ l, of "CHR '']'' # rest"] by (simp add: at_value_end_def)
    from parse_elements_step(1) [OF this] True show ?thesis
      by simp
  next
    case False
    let ?tail = "stringify_elements xs @ CHR '']'' # rest"
    from "8.prems" False have l: "length (JSON_stringify x) \<le> n"
      and l2: "length (JSON_stringify x) + 1 + length (stringify_elements xs) < n"
      by simp_all
    then obtain m where n: "n = Suc m" by (cases n) auto
    from l2 n JSON_stringify_nonempty [OF vx] have "length (stringify_elements xs) < m"
      by simp
    from "8.IH"(2) [OF vxs False this, of rest]
    have tl_text: "parse_elements m ?tail = Some (xs, rest)" .
    have "parse_value n (JSON_stringify x @ CHR '','' # ?tail) = Some (x, CHR '','' # ?tail)"
      using "8.IH"(1) [OF vx _ l, of "CHR '','' # ?tail"] by (simp add: at_value_end_def)
    from parse_elements_step(2) [OF this refl n tl_text] False show ?thesis
      by simp
  qed
next
  case 9
  then show ?case by simp
next
  case (10 kv kvs)
  from "10.prems" have vx: "valid_json (snd kv)" and vxs: "valid_members kvs" by simp_all
  show ?case
  proof (cases "kvs = []")
    case True
    with "10.prems" have l: "length (JSON_stringify (snd kv)) \<le> n" by simp
    have "parse_value n (JSON_stringify (snd kv) @ CHR ''}'' # rest)
            = Some (snd kv, CHR ''}'' # rest)"
      using "10.IH"(1) [OF vx _ l, of "CHR ''}'' # rest"] by (simp add: at_value_end_def)
    from parse_members_step(1) [OF this, of rest "fst kv"] True show ?thesis
      by simp
  next
    case False
    let ?tail = "stringify_members kvs @ CHR ''}'' # rest"
    from "10.prems" False have l: "length (JSON_stringify (snd kv)) \<le> n"
      and l2: "length (JSON_stringify (snd kv)) + 1 + length (stringify_members kvs) < n"
      by simp_all
    then obtain m where n: "n = Suc m" by (cases n) auto
    from l2 n JSON_stringify_nonempty [OF vx] have "length (stringify_members kvs) < m"
      by simp
    from "10.IH"(2) [OF vxs False this, of rest]
    have tl_text: "parse_members m ?tail = Some (kvs, rest)" .
    have "parse_value n (JSON_stringify (snd kv) @ CHR '','' # ?tail)
            = Some (snd kv, CHR '','' # ?tail)"
      using "10.IH"(1) [OF vx _ l, of "CHR '','' # ?tail"] by (simp add: at_value_end_def)
    from parse_members_step(2) [OF this refl n tl_text, of "fst kv"] False show ?thesis
      by simp
  qed
qed

lemma JSON_parse_stringify: "valid_json v \<Longrightarrow> JSON_parse (JSON_stringify v) = Inr v"
  using round_trip_aux(1) [of v "[]" "Suc (length (JSON_stringify v))"]
  by (simp add: JSON_parse_def at_value_end_def skip_ws_def)

text \<open>
  Claim C9. For every structurally valid recommendation object (every JSON value whose numbers
  are JSON numerals and whose objects have each key once), parsing the serialised text gives
  back the object itself, and the results view, loading what was persisted, holds exactly that
  object with no error: no field is lost or changed. An object that is truthy, as every
  recommendation is, is then what the page renders.
\<close>

theorem persisted_recommendation_round_trip:
  assumes "valid_json v"
  shows "JSON_parse (JSON_stringify v) = Inr v \<and>
         Results_useEffect JSON_parse (persist localStorage v) initial_state
           = Inr \<lparr>stored_recommendation = v, stored_error = None\<rparr> \<and>
         Results JSON_parse (persist localStorage v)
           = Inr (if truthy v then Itinerary v else Spinner)"
proof -
  have p: "JSON_parse (JSON_stringify v) = Inr v"
    using assms by (rule JSON_parse_stringify)
  have n: "JSON_stringify v \<noteq> []"
    using JSON_stringify_nonempty [OF assms] by auto
  have e: "Results_useEffect JSON_parse (persist localStorage v) initial_state
           = Inr \<lparr>stored_recommendation = v, stored_error = None\<rparr>"
    using p n by (intro Results_keeps_parsed_value) (simp_all add: persist_def)
  from p e show ?thesis
    by (simp add: Results_def Results_render_def falsy_def)
qed

theorem persisted_recommendation_round_trip_witness:
  "valid_json (JObject
      [(''city'', JString ''Paris''),
       (''day1'', JObject
          [(''morning'', JObject
             [(''title'', JString ''Morning Exploration''),
              (''places'', JArray
                 [JObject
                    [(''id'', JString ''p1''),
                     (''displayName'', JObject [(''text'', JString ''Louvre'')]),
                     (''rating'', JNumber ''4.7''),
                     (''userRatingCount'', JNumber ''1200'')]])])]),
       (''day2'', JObject [])]) \<and>
   JSON_parse (JSON_stringify (JObject
      [(''city'', JString ''Paris''),
       (''day1'', JObject
          [(''morning'', JObject
             [(''title'', JString ''Morning Exploration''),
              (''places'', JArray
                 [JObject
                    [(''id'', JString ''p1''),
                     (''displayName'', JObject [(''text'', JString ''Louvre'')]),
                     (''rating'', JNumber ''4.7''),
                     (''userRatingCount'', JNumber ''1200'')]])])]),
       (''day2'', JObject [])]))
     = Inr (JObject
      [(''city'', JString ''Paris''),
       (''day1'', JObject
          [(''morning'', JObject
             [(''title'', JString ''Morning Exploration''),
              (''places'', JArray
                 [JObject
                    [(''id'', JString ''p1''),
                     (''displayName'', JObject [(''text'', JString ''Louvre'')]),
                     (''rating'', JNumber ''4.7''),
                     (''userRatingCount'', JNumber ''1200'')]])])]),
       (''day2'', JObject [])]) \<and>
   Results JSON_parse (persist Map.empty (JObject
      [(''city'', JString ''Paris''),
       (''day1'', JObject
          [(''morning'', JObject
             [(''title'', JString ''Morning Exploration''),
              (''places'', JArray
                 [JObject
                    [(''id'', JString ''p1''),
                     (''displayName'', JObject [(''text'', JString ''Louvre'')]),
                     (''rating'', JNumber ''4.7''),
                     (''userRatingCount'', JNumber ''1200'')]])])]),
       (''day2'', JObject [])]))
     = Inr (Itinerary (JObject
      [(''city'', JString ''Paris''),
       (''day1'', JObject
          [(''morning'', JObject
             [(''title'', JString ''Morning Exploration''),
              (''places'', JArray
                 [JObject
                    [(''id'', JString ''p1''),
                     (''displayName'', JObject [(''text'', JString ''Louvre'')]),
                     (''rating'', JNumber ''4.7''),
                     (''userRatingCount'', JNumber ''1200'')]])])]),
       (''day2'', JObject [])]))"
proof -
  have v: "valid_json (JObject
      [(''city'', JString ''Paris''),
       (''day1'', JObject
          [(''morning'', JObject
             [(''title'', JString ''Morning Exploration''),
              (''places'', JArray
                 [JObject
                    [(''id'', JString ''p1''),
                     (''displayName'', JObject [(''text'', JString ''Louvre'')]),
                     (''rating'', JNumber ''4.7''),
                     (''userRatingCount'', JNumber ''1200'')]])])]),
       (''day2'', JObject [])])"
    by code_simp
  from persisted_recommendation_round_trip [OF v, of Map.empty] v show ?thesis
    by simp
qed

end
